theory Spec2Isabelle
  imports Complex_Main
begin

section \<open>Binary32 values\<close>

text \<open>
  The tensors of \<^verbatim>\<open>agent_motion_prediction.py\<close> hold binary32 floating point numbers. A
  value is NaN, one of the two infinities, or a finite number (the two zeros are one value).
\<close>

datatype fval = NaN | PInf | NInf | Fin real

text \<open>
  The arithmetic follows IEEE 754. What an operation does with NaN and the infinities is
  fixed. Two things are parameters of the model: \<open>rnd\<close>, the rounding of the exact result
  of an operation on finite numbers, which overflows to an infinity; and \<open>reduce_mean\<close>,
  the mean of the elements of a tensor, whose order of summation the framework chooses.
\<close>

record float_ops =
  rnd :: "real \<Rightarrow> fval"
  reduce_mean :: "fval list \<Rightarrow> fval"

fun fadd :: "(real \<Rightarrow> fval) \<Rightarrow> fval \<Rightarrow> fval \<Rightarrow> fval" where
  "fadd r (Fin x) (Fin y) = r (x + y)"
| "fadd r NaN y = NaN"
| "fadd r x NaN = NaN"
| "fadd r PInf NInf = NaN"
| "fadd r NInf PInf = NaN"
| "fadd r PInf y = PInf"
| "fadd r NInf y = NInf"
| "fadd r x PInf = PInf"
| "fadd r x NInf = NInf"

fun fsub :: "(real \<Rightarrow> fval) \<Rightarrow> fval \<Rightarrow> fval \<Rightarrow> fval" where
  "fsub r (Fin x) (Fin y) = r (x - y)"
| "fsub r NaN y = NaN"
| "fsub r x NaN = NaN"
| "fsub r PInf PInf = NaN"
| "fsub r NInf NInf = NaN"
| "fsub r PInf y = PInf"
| "fsub r NInf y = NInf"
| "fsub r x PInf = NInf"
| "fsub r x NInf = PInf"

text \<open>An infinity times a finite number: NaN for zero, else the infinity of the sign.\<close>

definition inf_times :: "bool \<Rightarrow> real \<Rightarrow> fval" where
  "inf_times positive y =
     (if y = 0 then NaN else if (0 < y) = positive then PInf else NInf)"

fun fmul :: "(real \<Rightarrow> fval) \<Rightarrow> fval \<Rightarrow> fval \<Rightarrow> fval" where
  "fmul r (Fin x) (Fin y) = r (x * y)"
| "fmul r NaN y = NaN"
| "fmul r x NaN = NaN"
| "fmul r PInf PInf = PInf"
| "fmul r PInf NInf = NInf"
| "fmul r NInf PInf = NInf"
| "fmul r NInf NInf = PInf"
| "fmul r PInf (Fin y) = inf_times True y"
| "fmul r NInf (Fin y) = inf_times False y"
| "fmul r (Fin x) PInf = inf_times True x"
| "fmul r (Fin x) NInf = inf_times False x"


section \<open>Tensors\<close>

text \<open>
  A tensor is modelled as its shape together with its elements in row-major order.
\<close>

datatype error =
    RuntimeError
  | StopIteration
  | ZeroDivisionError
  | ValueError
  | AssertionError
  | OtherError string

record tensor =
  shape :: "nat list"
  data :: "fval list"

definition wf_tensor :: "tensor \<Rightarrow> bool" where
  "wf_tensor t = (length (data t) = prod_list (shape t))"

text \<open>\<^verbatim>\<open>t.cuda(device)\<close> moves a tensor to a device; shape and elements are unchanged.\<close>

definition cuda :: "tensor \<Rightarrow> nat \<Rightarrow> tensor" where
  "cuda t device = t"

text \<open>\<^verbatim>\<open>t.unsqueeze(-1)\<close>: a trailing dimension of size 1.\<close>

definition unsqueeze_last :: "tensor \<Rightarrow> tensor" where
  "unsqueeze_last t = \<lparr>shape = shape t @ [1], data = data t\<rparr>"

text \<open>\<^verbatim>\<open>t.reshape(s)\<close>: the elements are kept; it raises when the element counts differ.\<close>

definition reshape :: "tensor \<Rightarrow> nat list \<Rightarrow> error + tensor" where
  "reshape t s =
     (if prod_list s = length (data t) then Inr \<lparr>shape = s, data = data t\<rparr>
      else Inl RuntimeError)"

text \<open>
  Broadcasting of two shapes, aligned at the trailing dimension: the shorter shape is
  padded with leading ones, and two sizes are compatible when they are equal or one of
  them is 1.
\<close>

definition pad_shape :: "nat \<Rightarrow> nat list \<Rightarrow> nat list" where
  "pad_shape n s = replicate (n - length s) 1 @ s"

fun broadcast_dims :: "nat list \<Rightarrow> nat list \<Rightarrow> nat list option" where
  "broadcast_dims [] [] = Some []"
| "broadcast_dims (m # ms) (n # ns) =
     (if m = n \<or> n = 1 then map_option ((#) m) (broadcast_dims ms ns)
      else if m = 1 then map_option ((#) n) (broadcast_dims ms ns)
      else None)"
| "broadcast_dims _ _ = None"

definition broadcast_shapes :: "nat list \<Rightarrow> nat list \<Rightarrow> nat list option" where
  "broadcast_shapes s1 s2 =
     (let n = max (length s1) (length s2)
      in broadcast_dims (pad_shape n s1) (pad_shape n s2))"

text \<open>\<open>chunks k n xs\<close>: the \<open>k\<close> consecutive blocks of \<open>n\<close> elements of \<open>xs\<close>.\<close>

definition chunks :: "nat \<Rightarrow> nat \<Rightarrow> 'a list \<Rightarrow> 'a list list" where
  "chunks k n xs = map (\<lambda>i. take n (drop (i * n) xs)) [0..<k]"

text \<open>
  \<open>expand s r xs\<close>: the elements of a tensor of shape \<open>s\<close> expanded to the broadcast
  shape \<open>r\<close> of the same rank; a dimension of size 1 is repeated.
\<close>

fun expand :: "nat list \<Rightarrow> nat list \<Rightarrow> 'a list \<Rightarrow> 'a list" where
  "expand (m # ms) (n # ns) xs =
     (if m = n then concat (map (expand ms ns) (chunks m (prod_list ms) xs))
      else concat (replicate n (expand ms ns xs)))"
| "expand _ _ xs = xs"

text \<open>An elementwise binary operation with broadcasting.\<close>

definition elementwise :: "(fval \<Rightarrow> fval \<Rightarrow> fval) \<Rightarrow> tensor \<Rightarrow> tensor \<Rightarrow> error + tensor" where
  "elementwise f a b =
     (case broadcast_shapes (shape a) (shape b) of
        None \<Rightarrow> Inl RuntimeError
      | Some r \<Rightarrow>
          Inr \<lparr>shape = r,
               data = map2 f (expand (pad_shape (length r) (shape a)) r (data a))
                             (expand (pad_shape (length r) (shape b)) r (data b))\<rparr>)"

text \<open>\<^verbatim>\<open>a * b\<close> on tensors.\<close>

definition mul :: "float_ops \<Rightarrow> tensor \<Rightarrow> tensor \<Rightarrow> error + tensor" where
  "mul fl a b = elementwise (fmul (rnd fl)) a b"

text \<open>The squared error of two numbers: the difference, multiplied by itself.\<close>

definition sq_err :: "float_ops \<Rightarrow> fval \<Rightarrow> fval \<Rightarrow> fval" where
  "sq_err fl x y = fmul (rnd fl) (fsub (rnd fl) x y) (fsub (rnd fl) x y)"

text \<open>\<^verbatim>\<open>nn.MSELoss(reduction="none")\<close>: the elementwise squared error.\<close>

definition MSELoss_none :: "float_ops \<Rightarrow> tensor \<Rightarrow> tensor \<Rightarrow> error + tensor" where
  "MSELoss_none fl input target = elementwise (sq_err fl) input target"

text \<open>\<^verbatim>\<open>t.mean()\<close>: the mean over all elements.\<close>

definition mean :: "float_ops \<Rightarrow> tensor \<Rightarrow> fval" where
  "mean fl t = reduce_mean fl (data t)"

section \<open>The forward pass\<close>

text \<open>A batch of the data loader: the entries of the dictionary that the script reads.\<close>

record batch =
  image :: tensor
  target_availabilities :: tensor
  target_positions :: tensor
  timestamp :: "int list"
  track_id :: "int list"

text \<open>
  \<^verbatim>\<open>forward(data_, model_, device_, criterion_)\<close> (the trailing underscores of the
  parameter names are dropped), with the arithmetic of the framework as a further
  parameter. The model is a function from the input tensor to the output tensor, which
  may raise.
\<close>

definition forward ::
  "float_ops \<Rightarrow> batch \<Rightarrow> (tensor \<Rightarrow> error + tensor) \<Rightarrow> nat
     \<Rightarrow> (tensor \<Rightarrow> tensor \<Rightarrow> error + tensor) \<Rightarrow> error + (fval \<times> tensor)" where
  "forward fl batch_data model device criterion =
     (let inputs = cuda (image batch_data) device;
          availabilities = cuda (unsqueeze_last (target_availabilities batch_data)) device;
          targets = cuda (target_positions batch_data) device
      in case model inputs of
           Inl e \<Rightarrow> Inl e
         | Inr y \<Rightarrow>
             (case reshape y (shape targets) of
                Inl e \<Rightarrow> Inl e
              | Inr outputs \<Rightarrow>
                  (case criterion outputs targets of
                     Inl e \<Rightarrow> Inl e
                   | Inr loss0 \<Rightarrow>
                       (case mul fl loss0 availabilities of
                          Inl e \<Rightarrow> Inl e
                        | Inr loss1 \<Rightarrow> Inr (mean fl loss1, outputs)))))"


section \<open>Configuration and model construction\<close>

text \<open>
  The configuration \<^verbatim>\<open>cfg\<close> is a nested dictionary loaded from a YAML file; only the entries
  that the script reads are kept. Frame counts and sizes are natural numbers.
\<close>

record model_params =
  history_num_frames :: nat
  future_num_frames :: nat

record train_params =
  model_num :: int
  checkpoint_every_n_steps :: int
  max_num_epochs :: int
  load_the_state :: bool

record data_loader_cfg =
  key :: string
  shuffle :: bool
  batch_size :: nat

record test_loader_cfg = data_loader_cfg +
  mask :: string
  num_workers :: nat

record config =
  cfg_model_params :: model_params
  cfg_train_params :: train_params
  cfg_train_data_loader :: data_loader_cfg
  cfg_test_data_loader :: test_loader_cfg
  cfg_test_model_num :: int

text \<open>The two layers that \<^verbatim>\<open>build_model\<close> constructs, by their constructor arguments.\<close>

record conv2d =
  in_channels :: nat
  out_channels :: nat
  kernel_size :: "nat \<times> nat"
  stride :: "nat \<times> nat"
  padding :: "nat \<times> nat"
  bias :: bool

record linear =
  in_features :: nat
  out_features :: nat

text \<open>
  A residual network: its first convolution, its final linear layer, and everything else
  (\<open>other_layers\<close>: the remaining modules and the parameter values).
\<close>

record 'w resnet =
  conv1 :: conv2d
  fc :: linear
  other_layers :: 'w

text \<open>
  \<^verbatim>\<open>build_model(cfg_)\<close>. The constructor \<^verbatim>\<open>resnet50\<close> of the vision library is a
  parameter: it maps the flag \<^verbatim>\<open>pretrained\<close> to a network.
\<close>

definition build_model :: "(bool \<Rightarrow> 'w resnet) \<Rightarrow> config \<Rightarrow> 'w resnet" where
  "build_model resnet50 cfg =
     (let model0 = resnet50 False;
          num_history_channels = (history_num_frames (cfg_model_params cfg) + 1) * 2;
          num_in_channels = 3 + num_history_channels;
          model1 = model0\<lparr>conv1 :=
            \<lparr>in_channels = num_in_channels,
             out_channels = out_channels (conv1 model0),
             kernel_size = kernel_size (conv1 model0),
             stride = stride (conv1 model0),
             padding = padding (conv1 model0),
             bias = False\<rparr>\<rparr>;
          num_targets = 2 * future_num_frames (cfg_model_params cfg)
      in model1\<lparr>fc := \<lparr>in_features = 2048, out_features = num_targets\<rparr>\<rparr>)"

section \<open>Optimizer, data loader, checkpoints\<close>

datatype optim_algo = SGD | Adam

record 'o optimizer =
  algo :: optim_algo
  lr :: real
  opt_state :: 'o

text \<open>
  A data loader: \<open>dl_len\<close> is \<^verbatim>\<open>len(dataloader)\<close>, \<open>dl_items\<close> is what a fresh iterator
  yields, in order; an item \<open>Inl e\<close> is a fetch that raises \<open>e\<close>.
\<close>

record dataloader =
  dl_len :: nat
  dl_items :: "(error + batch) list"

definition iter :: "dataloader \<Rightarrow> (error + batch) list" where
  "iter dl = dl_items dl"

text \<open>\<^verbatim>\<open>next(it)\<close>: the next batch and the advanced iterator; an exhausted iterator raises.\<close>

definition next_item :: "(error + batch) list \<Rightarrow> error + (batch \<times> (error + batch) list)" where
  "next_item it =
     (case it of
        [] \<Rightarrow> Inl StopIteration
      | Inl e # rest \<Rightarrow> Inl e
      | Inr b # rest \<Rightarrow> Inr (b, rest))"

text \<open>
  Checkpoint files: \<open>Resnet n\<close> is \<^verbatim>\<open>log_dir + 'resnet_{}.pth'.format(n)\<close> and
  \<open>ResnetAt e i\<close> is \<^verbatim>\<open>log_dir + 'resnet_{}_{}.pth'.format(e, i)\<close>. The content of a file is
  a dictionary from strings to state dicts, kept as an association list.
\<close>

datatype checkpoint_path = Resnet int | ResnetAt nat nat

datatype ('w, 'o) state_dict = ModelState "'w resnet" | OptimizerState "'o optimizer"

type_synonym ('w, 'o) checkpoint = "(string \<times> ('w, 'o) state_dict) list"

text \<open>
  The behaviour of the libraries that the script calls is a parameter of the model:
  \<^item> \<open>resnet50\<close>: the backbone constructor;
  \<^item> \<open>init_process_group world_size rank\<close>: joining the process group, which may raise;
  \<^item> \<open>run_model training m x\<close>: the network applied to an input, in training or
    evaluation mode;
  \<^item> \<open>init_opt_state\<close>: the state of a fresh optimizer over the parameters of a model;
  \<^item> \<open>optimizer_step algo lr st m b\<close>: \<^verbatim>\<open>zero_grad()\<close>, \<^verbatim>\<open>loss.backward()\<close> for the loss
    of batch \<open>b\<close>, and \<^verbatim>\<open>optimizer.step()\<close> with the update rule of \<open>algo\<close>;
  \<^item> \<open>train_loader cfg world_size rank\<close> and \<open>test_loader cfg world_size rank\<close>: the data
    loader over the distributed sampler of the data set;
  \<^item> \<open>torch_load\<close>: reading a checkpoint file;
  \<^item> \<open>params_fit saved built\<close>: whether the parameters saved from the remaining layers
    have the keys and sizes that the remaining layers of a built network expect;
  \<^item> \<open>ops\<close>: the floating point arithmetic.
\<close>

record ('w, 'o) env =
  resnet50 :: "bool \<Rightarrow> 'w resnet"
  init_process_group :: "int \<Rightarrow> nat \<Rightarrow> error option"
  run_model :: "bool \<Rightarrow> 'w resnet \<Rightarrow> tensor \<Rightarrow> error + tensor"
  init_opt_state :: "'w resnet \<Rightarrow> 'o"
  optimizer_step ::
    "optim_algo \<Rightarrow> real \<Rightarrow> 'o \<Rightarrow> 'w resnet \<Rightarrow> batch \<Rightarrow> error + ('o \<times> 'w resnet)"
  train_loader :: "data_loader_cfg \<Rightarrow> int \<Rightarrow> nat \<Rightarrow> dataloader"
  test_loader :: "test_loader_cfg \<Rightarrow> int \<Rightarrow> nat \<Rightarrow> dataloader"
  torch_load :: "checkpoint_path \<Rightarrow> error + ('w, 'o) checkpoint"
  params_fit :: "'w \<Rightarrow> 'w \<Rightarrow> bool"
  ops :: float_ops

text \<open>\<^verbatim>\<open>optim.Adam(params, lr=lr)\<close>.\<close>

definition optim_Adam :: "('w, 'o) env \<Rightarrow> 'w resnet \<Rightarrow> real \<Rightarrow> 'o optimizer" where
  "optim_Adam env params rate =
     \<lparr>algo = Adam, lr = rate, opt_state = init_opt_state env params\<rparr>"

text \<open>
  The parameters of the two layers in a state dict: the shape of the weight of a
  convolution and whether it has a bias entry (of the size of the output channels), and
  the shape of the weight of a linear layer (its bias has the size of the output features).
  Stride and padding are no parameters.
\<close>

definition conv2d_params :: "conv2d \<Rightarrow> (nat \<times> nat \<times> nat \<times> nat) \<times> bool" where
  "conv2d_params c =
     ((out_channels c, in_channels c, fst (kernel_size c), snd (kernel_size c)), bias c)"

definition linear_params :: "linear \<Rightarrow> nat \<times> nat" where
  "linear_params l = (out_features l, in_features l)"

text \<open>
  \<^verbatim>\<open>model.load_state_dict(checkpoint['model'])\<close>: a missing key \<^verbatim>\<open>'model'\<close> raises.
  The load is strict: the entries saved for the first convolution and for the final layer
  must have the keys and sizes of those layers of the built model, and the remaining
  saved parameters must fit its remaining layers; otherwise it raises. The built model
  then holds the saved parameters.
\<close>

definition load_state_dict ::
  "('w, 'o) env \<Rightarrow> 'w resnet \<Rightarrow> ('w, 'o) checkpoint \<Rightarrow> error + 'w resnet" where
  "load_state_dict env m ck =
     (case map_of ck ''model'' of
        None \<Rightarrow> Inl (OtherError ''KeyError'')
      | Some (OptimizerState _) \<Rightarrow> Inl RuntimeError
      | Some (ModelState saved_model) \<Rightarrow>
          if conv2d_params (conv1 saved_model) = conv2d_params (conv1 m)
             \<and> linear_params (fc saved_model) = linear_params (fc m)
             \<and> params_fit env (other_layers saved_model) (other_layers m)
          then Inr (m\<lparr>other_layers := other_layers saved_model\<rparr>)
          else Inl RuntimeError)"

text \<open>A loop whose body may raise: the first error ends it.\<close>

fun for_loop :: "('s \<Rightarrow> 'a \<Rightarrow> error + 's) \<Rightarrow> 's \<Rightarrow> 'a list \<Rightarrow> error + 's" where
  "for_loop body st [] = Inr st"
| "for_loop body st (x # xs) =
     (case body st x of Inl e \<Rightarrow> Inl e | Inr st' \<Rightarrow> for_loop body st' xs)"

section \<open>Training\<close>

text \<open>The command line arguments, with \<open>world_size\<close> as \<^verbatim>\<open>main\<close> adds it.\<close>

record cli_args =
  nodes :: int
  gpus :: int
  nr :: int

record args = cli_args +
  world_size :: int

text \<open>
  The variables of \<^verbatim>\<open>train\<close> that its loops change, and the files written by
  \<^verbatim>\<open>torch.save\<close>, in order.
\<close>

record ('w, 'o) train_state =
  tr_it :: "(error + batch) list"
  model :: "'w resnet"
  optimizer :: "'o optimizer"
  losses_train :: "fval list"
  saved :: "(checkpoint_path \<times> ('w, 'o) checkpoint) list"

text \<open>
  Lines 130 to 134: the next batch; when the iterator is exhausted, a fresh iterator is
  made and the batch is taken from it.
\<close>

definition fetch ::
  "dataloader \<Rightarrow> (error + batch) list \<Rightarrow> error + (batch \<times> (error + batch) list)" where
  "fetch train_dataloader it =
     (case next_item it of
        Inl e \<Rightarrow> (if e = StopIteration then next_item (iter train_dataloader) else Inl e)
      | Inr r \<Rightarrow> Inr r)"

text \<open>The body of the inner loop, lines 130 to 149, at batch index \<open>index\<close>.\<close>

definition train_iteration ::
  "('w, 'o) env \<Rightarrow> config \<Rightarrow> nat \<Rightarrow> dataloader \<Rightarrow> nat \<Rightarrow> ('w, 'o) train_state \<Rightarrow> nat
     \<Rightarrow> error + ('w, 'o) train_state" where
  "train_iteration env cfg gpu train_dataloader epoch st index =
     (let checkpoint = checkpoint_every_n_steps (cfg_train_params cfg)
      in case fetch train_dataloader (tr_it st) of
           Inl e \<Rightarrow> Inl e
         | Inr (batch_data, it') \<Rightarrow>
             (case forward (ops env) batch_data (run_model env True (model st)) gpu
                     (MSELoss_none (ops env)) of
                Inl e \<Rightarrow> Inl e
              | Inr (loss, _) \<Rightarrow>
                  (case optimizer_step env (algo (optimizer st)) (lr (optimizer st))
                          (opt_state (optimizer st)) (model st) batch_data of
                     Inl e \<Rightarrow> Inl e
                   | Inr (os', m') \<Rightarrow>
                       (let st' = st\<lparr>tr_it := it', model := m',
                                     optimizer := (optimizer st)\<lparr>opt_state := os'\<rparr>,
                                     losses_train := losses_train st @ [loss]\<rparr>
                        in if checkpoint = 0 then Inl ZeroDivisionError
                           else if int index mod checkpoint = 0 \<and> index \<noteq> 0 \<and> gpu = 0
                           then Inr (st'\<lparr>saved := saved st' @
                                  [(ResnetAt epoch index,
                                    [(''model'', ModelState (model st')),
                                     (''optimizer'', OptimizerState (optimizer st'))])]\<rparr>)
                           else Inr st'))))"

text \<open>The body of the epoch loop, lines 125 to 149.\<close>

definition train_epoch ::
  "('w, 'o) env \<Rightarrow> config \<Rightarrow> nat \<Rightarrow> dataloader \<Rightarrow> ('w, 'o) train_state \<Rightarrow> nat
     \<Rightarrow> error + ('w, 'o) train_state" where
  "train_epoch env cfg gpu train_dataloader st epoch =
     for_loop (train_iteration env cfg gpu train_dataloader epoch)
       (st\<lparr>tr_it := iter train_dataloader, losses_train := []\<rparr>)
       [0..<dl_len train_dataloader]"

text \<open>\<^verbatim>\<open>train(gpu, args)\<close>.\<close>

definition train ::
  "('w, 'o) env \<Rightarrow> config \<Rightarrow> nat \<Rightarrow> 'z args_scheme \<Rightarrow> error + ('w, 'o) train_state" where
  "train env cfg gpu args =
     (case init_process_group env (world_size args) gpu of
        Some e \<Rightarrow> Inl e
      | None \<Rightarrow>
          (let model0 = build_model (resnet50 env) cfg;
               optimizer0 = optim_Adam env model0 (1 / 1000);
               train_cfg = cfg_train_data_loader cfg;
               train_dataloader = train_loader env train_cfg (world_size args) gpu;
               loaded =
                 (if model_num (cfg_train_params cfg) \<noteq> 0
                  then (case torch_load env (Resnet (model_num (cfg_train_params cfg))) of
                          Inl e \<Rightarrow> Inl e
                        | Inr ck \<Rightarrow> load_state_dict env model0 ck)
                  else Inr model0)
           in case loaded of
                Inl e \<Rightarrow> Inl e
              | Inr model1 \<Rightarrow>
                  for_loop (train_epoch env cfg gpu train_dataloader)
                    \<lparr>tr_it = [], model = model1, optimizer = optimizer0,
                     losses_train = [], saved = []\<rparr>
                    [0..<nat (max_num_epochs (cfg_train_params cfg))]))"

section \<open>Evaluation\<close>

text \<open>
  \<^verbatim>\<open>np.concatenate\<close> of a list of one-dimensional arrays, and of a list of arrays along
  their first axis; an empty list raises, and so do arrays that disagree on the other axes.
\<close>

definition np_concatenate :: "'a list list \<Rightarrow> error + 'a list" where
  "np_concatenate xss = (if xss = [] then Inl ValueError else Inr (concat xss))"

definition np_concatenate_tensors :: "tensor list \<Rightarrow> error + tensor" where
  "np_concatenate_tensors ts =
     (case ts of
        [] \<Rightarrow> Inl ValueError
      | t # rest \<Rightarrow>
          (case shape t of
             [] \<Rightarrow> Inl ValueError
           | n # dims \<Rightarrow>
               if list_all (\<lambda>u. shape u \<noteq> [] \<and> tl (shape u) = dims) rest
               then Inr \<lparr>shape = sum_list (map (\<lambda>u. hd (shape u)) ts) # dims,
                         data = concat (map data ts)\<rparr>
               else Inl ValueError))"

text \<open>
  \<^verbatim>\<open>write_pred_csv\<close> of the data set toolkit, by its contract for single-mode predictions:
  it asserts that the coordinates have shape \<open>(N, future_len, 2)\<close> and that there are \<open>N\<close>
  timestamps and \<open>N\<close> track ids, and writes one row for each of the \<open>N\<close> examples.
\<close>

record pred_csv =
  csv_path :: string
  csv_rows :: "(int \<times> int \<times> fval list) list"

definition write_pred_csv :: "string \<Rightarrow> int list \<Rightarrow> int list \<Rightarrow> tensor \<Rightarrow> error + pred_csv" where
  "write_pred_csv path ts ids coords =
     (case shape coords of
        [num_example, future_len, num_coords] \<Rightarrow>
          if num_coords = 2 \<and> length ts = num_example \<and> length ids = num_example
          then Inr \<lparr>csv_path = path,
                    csv_rows = zip ts (zip ids
                      (chunks num_example (future_len * num_coords) (data coords)))\<rparr>
          else Inl AssertionError
      | _ \<Rightarrow> Inl AssertionError)"

text \<open>The three lists that the evaluation loop appends to.\<close>

record eval_state =
  future_coords_offsets_pd :: "tensor list"
  timestamps :: "int list list"
  agent_ids :: "int list list"

text \<open>The body of the evaluation loop, lines 231 to 234.\<close>

definition eval_iteration ::
  "('w, 'o) env \<Rightarrow> nat \<Rightarrow> 'w resnet \<Rightarrow> eval_state \<Rightarrow> batch \<Rightarrow> error + eval_state" where
  "eval_iteration env gpu m st batch_data =
     (case forward (ops env) batch_data (run_model env False m) gpu (MSELoss_none (ops env)) of
        Inl e \<Rightarrow> Inl e
      | Inr (_, outputs) \<Rightarrow>
          Inr (st\<lparr>future_coords_offsets_pd := future_coords_offsets_pd st @ [outputs],
                  timestamps := timestamps st @ [timestamp batch_data],
                  agent_ids := agent_ids st @ [track_id batch_data]\<rparr>))"

text \<open>
  \<^verbatim>\<open>for data in dataloader\<close>: the loop ends when the iterator is exhausted; any other
  exception of a fetch or of the body leaves it.
\<close>

fun for_each_batch ::
  "('s \<Rightarrow> batch \<Rightarrow> error + 's) \<Rightarrow> 's \<Rightarrow> (error + batch) list \<Rightarrow> error + 's" where
  "for_each_batch body st [] = Inr st"
| "for_each_batch body st (Inl e # rest) = (if e = StopIteration then Inr st else Inl e)"
| "for_each_batch body st (Inr b # rest) =
     (case body st b of Inl e \<Rightarrow> Inl e | Inr st' \<Rightarrow> for_each_batch body st' rest)"

text \<open>\<^verbatim>\<open>test(gpu, args)\<close>.\<close>

definition test ::
  "('w, 'o) env \<Rightarrow> config \<Rightarrow> nat \<Rightarrow> 'z args_scheme \<Rightarrow> error + pred_csv" where
  "test env cfg gpu args =
     (case init_process_group env (world_size args) gpu of
        Some e \<Rightarrow> Inl e
      | None \<Rightarrow>
          (let model0 = build_model (resnet50 env) cfg;
               test_cfg = cfg_test_data_loader cfg;
               test_dataloader = test_loader env test_cfg (world_size args) gpu
           in case torch_load env (Resnet (cfg_test_model_num cfg)) of
                Inl e \<Rightarrow> Inl e
              | Inr checkpoint \<Rightarrow>
                  (case load_state_dict env model0 checkpoint of
                     Inl e \<Rightarrow> Inl e
                   | Inr model1 \<Rightarrow>
                       (case for_each_batch (eval_iteration env gpu model1)
                               \<lparr>future_coords_offsets_pd = [], timestamps = [], agent_ids = []\<rparr>
                               (iter test_dataloader) of
                          Inl e \<Rightarrow> Inl e
                        | Inr st \<Rightarrow>
                            (case np_concatenate (timestamps st) of
                               Inl e \<Rightarrow> Inl e
                             | Inr ts \<Rightarrow>
                                 (case np_concatenate (agent_ids st) of
                                    Inl e \<Rightarrow> Inl e
                                  | Inr ids \<Rightarrow>
                                      (case np_concatenate_tensors
                                              (future_coords_offsets_pd st) of
                                         Inl e \<Rightarrow> Inl e
                                       | Inr coords \<Rightarrow>
                                           write_pred_csv ''./pred.csv'' ts ids coords)))))))"

section \<open>The entry point\<close>

text \<open>
  \<^verbatim>\<open>main()\<close>, after \<^verbatim>\<open>parse_args\<close>: the call of \<^verbatim>\<open>mp.spawn\<close> that it makes, as the
  function to run, the number of processes and the arguments handed to each process.
\<close>

datatype target = Train | Test

record spawn_call =
  sp_target :: target
  sp_nprocs :: int
  sp_args :: args

definition main :: "config \<Rightarrow> cli_args \<Rightarrow> spawn_call" where
  "main cfg parsed =
     (let args0 = \<lparr>nodes = nodes parsed, gpus = gpus parsed, nr = nr parsed,
                   world_size = gpus parsed * nodes parsed\<rparr>
      in if \<not> load_the_state (cfg_train_params cfg)
         then \<lparr>sp_target = Train, sp_nprocs = gpus args0, sp_args = args0\<rparr>
         else \<lparr>sp_target = Test, sp_nprocs = gpus args0, sp_args = args0\<rparr>)"

text \<open>
  \<^verbatim>\<open>mp.spawn(fn, nprocs=n, args=(args,))\<close> runs \<^verbatim>\<open>fn(i, args)\<close> for every process index
  \<open>i\<close> below \<open>n\<close>; the result of each process is kept.
\<close>

datatype ('w, 'o) outcome =
    Trained "error + ('w, 'o) train_state"
  | Tested "error + pred_csv"

definition run_spawn :: "('w, 'o) env \<Rightarrow> config \<Rightarrow> spawn_call \<Rightarrow> ('w, 'o) outcome list" where
  "run_spawn env cfg call =
     map (\<lambda>i. case sp_target call of
                 Train \<Rightarrow> Trained (train env cfg i (sp_args call))
               | Test \<Rightarrow> Tested (test env cfg i (sp_args call)))
       [0..<nat (sp_nprocs call)]"

text \<open>
  The contract of the data set for a batch of \<open>B\<close> agents with \<open>F\<close> future steps: \<open>B\<close>
  timestamps and track ids, target positions of shape \<open>(B, F, 2)\<close> and availabilities of
  shape \<open>(B, F)\<close>.
\<close>

definition well_formed_batch :: "nat \<Rightarrow> batch \<Rightarrow> bool" where
  "well_formed_batch F b =
     (length (track_id b) = length (timestamp b)
      \<and> shape (target_positions b) = [length (timestamp b), F, 2]
      \<and> shape (target_availabilities b) = [length (timestamp b), F]
      \<and> wf_tensor (target_positions b)
      \<and> wf_tensor (target_availabilities b))"

text \<open>
  A batch that the evaluation loop can process with model \<open>m\<close>: it is well formed and
  the model returns \<open>B * F * 2\<close> numbers for it.
\<close>

definition batch_ok :: "('w, 'o) env \<Rightarrow> 'w resnet \<Rightarrow> nat \<Rightarrow> batch \<Rightarrow> bool" where
  "batch_ok env m F b =
     (well_formed_batch F b
      \<and> (case run_model env False m (image b) of
            Inl e \<Rightarrow> False
          | Inr y \<Rightarrow> length (data y) = length (timestamp b) * F * 2))"

text \<open>
  What the model returns for a batch in evaluation mode, and the rows of the samples of a
  batch: for each sample its timestamp, its track id and the \<open>F * 2\<close> numbers that the
  model returned for it.
\<close>

definition model_output :: "('w, 'o) env \<Rightarrow> 'w resnet \<Rightarrow> batch \<Rightarrow> fval list" where
  "model_output env m b =
     (case run_model env False m (image b) of Inl e \<Rightarrow> [] | Inr y \<Rightarrow> data y)"

definition batch_rows ::
  "('w, 'o) env \<Rightarrow> 'w resnet \<Rightarrow> nat \<Rightarrow> batch \<Rightarrow> (int \<times> int \<times> fval list) list" where
  "batch_rows env m F b =
     zip (timestamp b)
       (zip (track_id b) (chunks (length (timestamp b)) (F * 2) (model_output env m b)))"

section \<open>Concrete inputs\<close>

text \<open>
  An arithmetic for the concrete inputs: the rounding keeps every number below the
  overflow threshold of binary32 (numbers of magnitude \<open>2^128 - 2^103\<close> or more round to
  an infinity) and the mean adds the elements from left to right and divides by their
  number.
\<close>

definition binary32_overflow :: real where
  "binary32_overflow = 2 ^ 128 - 2 ^ 103"

definition round_range :: "real \<Rightarrow> fval" where
  "round_range x =
     (if binary32_overflow \<le> x then PInf
      else if x \<le> - binary32_overflow then NInf
      else Fin x)"

fun fdiv_count :: "(real \<Rightarrow> fval) \<Rightarrow> fval \<Rightarrow> nat \<Rightarrow> fval" where
  "fdiv_count r (Fin x) n = r (x / real n)"
| "fdiv_count r v n = v"

definition sequential_mean :: "(real \<Rightarrow> fval) \<Rightarrow> fval list \<Rightarrow> fval" where
  "sequential_mean r xs =
     (if xs = [] then NaN else fdiv_count r (foldl (fadd r) (Fin 0) xs) (length xs))"

definition example_ops :: float_ops where
  "example_ops = \<lparr>rnd = round_range, reduce_mean = sequential_mean round_range\<rparr>"

text \<open>
  A small configuration, a batch of one agent with two future steps (the second one not
  available), a batch of two agents, and a stand-in for the libraries: the network
  returns for every sample the first number of its image, repeated to the width of the
  final layer, and an update adds 2 to the parameters under the rule of Adam and 1 under
  the rule of SGD. The training loader announces three batches and yields two, so that
  the iterator is exhausted within an epoch; the test loader yields the two different
  batches.
\<close>

definition example_cfg :: config where
  "example_cfg =
     \<lparr>cfg_model_params = \<lparr>history_num_frames = 10, future_num_frames = 2\<rparr>,
      cfg_train_params = \<lparr>model_num = 0, checkpoint_every_n_steps = 2,
                          max_num_epochs = 1, load_the_state = False\<rparr>,
      cfg_train_data_loader = \<lparr>key = ''train.zarr'', shuffle = True, batch_size = 1\<rparr>,
      cfg_test_data_loader = \<lparr>key = ''test.zarr'', shuffle = False, batch_size = 1,
                              mask = ''mask.npz'', num_workers = 0\<rparr>,
      cfg_test_model_num = 1\<rparr>"

definition example_batch :: batch where
  "example_batch =
     \<lparr>image = \<lparr>shape = [1, 25, 1, 1], data = replicate 25 (Fin 3)\<rparr>,
      target_availabilities = \<lparr>shape = [1, 2], data = [Fin 1, Fin 0]\<rparr>,
      target_positions = \<lparr>shape = [1, 2, 2], data = [Fin 1, Fin 2, Fin 3, Fin 4]\<rparr>,
      timestamp = [100],
      track_id = [7]\<rparr>"

definition example_batch2 :: batch where
  "example_batch2 =
     \<lparr>image = \<lparr>shape = [2, 25, 1, 1], data = replicate 25 (Fin 5) @ replicate 25 (Fin 7)\<rparr>,
      target_availabilities = \<lparr>shape = [2, 2], data = [Fin 1, Fin 1, Fin 1, Fin 0]\<rparr>,
      target_positions = \<lparr>shape = [2, 2, 2], data = replicate 8 (Fin 0)\<rparr>,
      timestamp = [200, 300],
      track_id = [8, 9]\<rparr>"

definition example_resnet :: "nat resnet" where
  "example_resnet =
     \<lparr>conv1 = \<lparr>in_channels = 3, out_channels = 64, kernel_size = (7, 7), stride = (2, 2),
               padding = (3, 3), bias = False\<rparr>,
      fc = \<lparr>in_features = 2048, out_features = 1000\<rparr>,
      other_layers = 0\<rparr>"

definition example_loader :: dataloader where
  "example_loader = \<lparr>dl_len = 3, dl_items = [Inr example_batch, Inr example_batch]\<rparr>"

definition example_net :: "nat resnet \<Rightarrow> tensor \<Rightarrow> error + tensor" where
  "example_net m x =
     Inr \<lparr>shape = [hd (shape x), out_features (fc m)],
          data = concat (map (\<lambda>sample. replicate (out_features (fc m)) (hd sample))
                   (chunks (hd (shape x)) (prod_list (tl (shape x))) (data x)))\<rparr>"

definition example_env :: "(nat, nat) env" where
  "example_env =
     \<lparr>resnet50 = (\<lambda>pretrained. example_resnet),
      init_process_group = (\<lambda>ws rank. None),
      run_model = (\<lambda>training. example_net),
      init_opt_state = (\<lambda>m. 0),
      optimizer_step = (\<lambda>a rate st m b.
        Inr (Suc st, m\<lparr>other_layers := other_layers m + (case a of SGD \<Rightarrow> 1 | Adam \<Rightarrow> 2)\<rparr>)),
      train_loader = (\<lambda>c ws rank. example_loader),
      test_loader = (\<lambda>c ws rank.
        \<lparr>dl_len = 2, dl_items = [Inr example_batch, Inr example_batch2]\<rparr>),
      torch_load = (\<lambda>p. Inr [(''model'', ModelState
        ((build_model (\<lambda>pretrained. example_resnet) example_cfg)\<lparr>other_layers := 6\<rparr>))]),
      params_fit = (\<lambda>saved_params built. True),
      ops = example_ops\<rparr>"

definition example_args :: args where
  "example_args = \<lparr>nodes = 1, gpus = 1, nr = 0, world_size = 1\<rparr>"

text \<open>The states in which the training run on these inputs starts and ends.\<close>

definition example_start :: "(nat, nat) train_state" where
  "example_start =
     \<lparr>tr_it = [], model = build_model (resnet50 example_env) example_cfg,
      optimizer = \<lparr>algo = Adam, lr = 1 / 1000, opt_state = 0\<rparr>,
      losses_train = [], saved = []\<rparr>"

definition example_final :: "(nat, nat) train_state" where
  "example_final =
     \<lparr>tr_it = [Inr example_batch],
      model = (build_model (resnet50 example_env) example_cfg)\<lparr>other_layers := 6\<rparr>,
      optimizer = \<lparr>algo = Adam, lr = 1 / 1000, opt_state = 3\<rparr>,
      losses_train = [Fin (5 / 4), Fin (5 / 4), Fin (5 / 4)],
      saved = [(ResnetAt 0 2,
                [(''model'', ModelState
                    ((build_model (resnet50 example_env) example_cfg)\<lparr>other_layers := 6\<rparr>)),
                 (''optimizer'', OptimizerState \<lparr>algo = Adam, lr = 1 / 1000, opt_state = 3\<rparr>)])]\<rparr>"

section \<open>Properties of the tensor operations\<close>

lemma concat_chunks: "length xs = k * n \<Longrightarrow> concat (chunks k n xs) = xs"
  unfolding chunks_def
proof (induction k arbitrary: xs)
  case 0
  then show ?case by simp
next
  case (Suc k)
  have "length (take (k * n) xs) = k * n"
    using Suc.prems by simp
  from Suc.IH[OF this]
  have "concat (map (\<lambda>i. take n (drop (i * n) (take (k * n) xs))) [0..<k]) = take (k * n) xs" .
  moreover have "map (\<lambda>i. take n (drop (i * n) (take (k * n) xs))) [0..<k]
      = map (\<lambda>i. take n (drop (i * n) xs)) [0..<k]"
  proof (rule map_cong[OF refl])
    fix i assume "i \<in> set [0..<k]"
    then have "i < k" by simp
    then have "i * n + n \<le> k * n"
      by (metis Suc_leI mult_Suc mult_le_mono1 add.commute)
    then show "take n (drop (i * n) (take (k * n) xs)) = take n (drop (i * n) xs)"
      by (simp add: drop_take min_def)
  qed
  ultimately have "concat (map (\<lambda>i. take n (drop (i * n) xs)) [0..<k]) = take (k * n) xs"
    by simp
  moreover have "take n (drop (k * n) xs) = drop (k * n) xs"
    using Suc.prems by simp
  ultimately show ?case by simp
qed

lemma length_chunk:
  assumes "length xs = k * n" and "c \<in> set (chunks k n xs)"
  shows "length c = n"
proof -
  from assms(2) obtain i where i: "i < k" "c = take n (drop (i * n) xs)"
    by (auto simp: chunks_def)
  from i(1) have "i * n + n \<le> k * n"
    by (metis Suc_leI mult_Suc mult_le_mono1 add.commute)
  with assms(1) i(2) show ?thesis by simp
qed

lemma length_chunks: "length (chunks k n xs) = k"
  by (simp add: chunks_def)

lemma expand_same: "length xs = prod_list s \<Longrightarrow> expand s s xs = xs"
proof (induction s arbitrary: xs)
  case Nil
  then show ?case by simp
next
  case (Cons m s)
  have len: "length xs = m * prod_list s"
    using Cons.prems by simp
  have "map (expand s s) (chunks m (prod_list s) xs) = map (\<lambda>c. c) (chunks m (prod_list s) xs)"
    by (rule map_cong[OF refl]) (simp add: Cons.IH length_chunk[OF len])
  then show ?case
    using concat_chunks[OF len] by simp
qed

lemma concat_map_inner:
  "concat (map (\<lambda>ch. concat (map f ch)) xss) = concat (map f (concat xss))"
  by (induction xss) auto

lemma expand_last:
  "length xs = prod_list s \<Longrightarrow>
   expand (s @ [Suc 0]) (s @ [c]) xs = concat (map (replicate c) xs)"
proof (induction s arbitrary: xs)
  case Nil
  then obtain x where "xs = [x]"
    by (cases xs) auto
  then show ?case
    by (cases "c = Suc 0") (simp_all add: chunks_def)
next
  case (Cons m s)
  have len: "length xs = m * prod_list s"
    using Cons.prems by simp
  have m: "map (expand (s @ [Suc 0]) (s @ [c])) (chunks m (prod_list s) xs)
        = map (\<lambda>ch. concat (map (replicate c) ch)) (chunks m (prod_list s) xs)"
    by (rule map_cong[OF refl]) (simp add: Cons.IH length_chunk[OF len])
  have "expand ((m # s) @ [Suc 0]) ((m # s) @ [c]) xs
        = concat (map (expand (s @ [Suc 0]) (s @ [c])) (chunks m (prod_list s) xs))"
    by simp
  also have "\<dots> = concat (map (\<lambda>ch. concat (map (replicate c) ch)) (chunks m (prod_list s) xs))"
    by (simp only: m)
  also have "\<dots> = concat (map (replicate c) (concat (chunks m (prod_list s) xs)))"
    by (rule concat_map_inner)
  finally show ?case
    using concat_chunks[OF len] by simp
qed



lemma broadcast_dims_same: "broadcast_dims s s = Some s"
  by (induction s) auto

lemma broadcast_dims_last: "broadcast_dims (s @ [c]) (s @ [Suc 0]) = Some (s @ [c])"
  by (induction s) auto

lemma pad_shape_same: "length s = n \<Longrightarrow> pad_shape n s = s"
  by (simp add: pad_shape_def)

lemma elementwise_same:
  assumes "shape a = shape b" and "wf_tensor a" and "wf_tensor b"
  shows "elementwise f a b = Inr \<lparr>shape = shape a, data = map2 f (data a) (data b)\<rparr>"
  using assms
  by (simp add: elementwise_def broadcast_shapes_def pad_shape_same broadcast_dims_same
      expand_same wf_tensor_def)

lemma elementwise_last:
  assumes "shape a = s @ [c]" and "shape b = s @ [Suc 0]" and "wf_tensor a" and "wf_tensor b"
  shows "elementwise f a b =
     Inr \<lparr>shape = s @ [c], data = map2 f (data a) (concat (map (replicate c) (data b)))\<rparr>"
  using assms
  by (simp add: elementwise_def broadcast_shapes_def pad_shape_same broadcast_dims_last
      expand_same expand_last wf_tensor_def)

section \<open>The loss of the forward pass\<close>

lemma forward_eq:
  assumes m: "net (image d) = Inr y"
    and st: "shape (target_positions d) = s @ [c]"
    and sa: "shape (target_availabilities d) = s"
    and wt: "wf_tensor (target_positions d)"
    and wa: "wf_tensor (target_availabilities d)"
    and ly: "length (data y) = prod_list s * c"
  shows "forward fl d net device (MSELoss_none fl) =
     Inr (mean fl \<lparr>shape = s @ [c],
                data = map2 (fmul (rnd fl))
                  (map2 (sq_err fl) (data y) (data (target_positions d)))
                  (concat (map (replicate c) (data (target_availabilities d))))\<rparr>,
          \<lparr>shape = s @ [c], data = data y\<rparr>)"
proof -
  let ?out = "\<lparr>shape = s @ [c], data = data y\<rparr>"
  let ?l0 = "\<lparr>shape = s @ [c],
      data = map2 (sq_err fl) (data y) (data (target_positions d))\<rparr>"
  have r: "reshape y (shape (target_positions d)) = Inr ?out"
    using st ly by (simp add: reshape_def)
  have wo: "wf_tensor ?out"
    using ly by (simp add: wf_tensor_def)
  have c: "MSELoss_none fl ?out (target_positions d) = Inr ?l0"
    unfolding MSELoss_none_def
    using elementwise_same[of ?out "target_positions d", OF _ wo wt] st by simp
  have wl: "wf_tensor ?l0"
    using ly wt st by (simp add: wf_tensor_def)
  have wu: "wf_tensor (unsqueeze_last (target_availabilities d))"
    using wa by (simp add: wf_tensor_def unsqueeze_last_def)
  have su: "shape (unsqueeze_last (target_availabilities d)) = s @ [Suc 0]"
    using sa by (simp add: unsqueeze_last_def)
  have "mul fl ?l0 (unsqueeze_last (target_availabilities d)) =
     Inr \<lparr>shape = s @ [c], data = map2 (fmul (rnd fl)) (data ?l0)
        (concat (map (replicate c) (data (unsqueeze_last (target_availabilities d)))))\<rparr>"
    unfolding mul_def
    by (rule elementwise_last[OF _ su wl wu]) simp
  then have mu: "mul fl ?l0 (unsqueeze_last (target_availabilities d)) =
     Inr \<lparr>shape = s @ [c], data = map2 (fmul (rnd fl))
        (map2 (sq_err fl) (data y) (data (target_positions d)))
        (concat (map (replicate c) (data (target_availabilities d))))\<rparr>"
    by (simp add: unsqueeze_last_def)
  show ?thesis
    unfolding forward_def cuda_def Let_def
    by (simp add: m r c mu)
qed



lemma example_ops_simps:
  "rnd example_ops = round_range"
  "reduce_mean example_ops = sequential_mean round_range"
  by (simp_all add: example_ops_def)

lemma binary32_overflow_bounds: "10 ^ 38 < binary32_overflow" "binary32_overflow < 10 ^ 39"
  by (simp_all add: binary32_overflow_def)

lemma round_range_small: "\<bar>x\<bar> \<le> 10 ^ 38 \<Longrightarrow> round_range x = Fin x"
  using binary32_overflow_bounds(1) by (auto simp: round_range_def)





section \<open>Model construction and entry point\<close>

text \<open>
  Claim C2. \<^verbatim>\<open>build_model\<close> replaces two layers of the backbone: the first convolution
  gets \<open>3 + 2 * (history_num_frames + 1)\<close> input channels, keeps the output channels,
  kernel size, stride and padding of the backbone's first convolution, and has no bias; the
  final linear layer maps 2048 features to \<open>2 * future_num_frames\<close> outputs. Everything
  else is what the backbone constructor returned.
\<close>

theorem build_model_layers:
  "conv1 (build_model r cfg) =
      \<lparr>in_channels = 3 + 2 * (history_num_frames (cfg_model_params cfg) + 1),
       out_channels = out_channels (conv1 (r False)),
       kernel_size = kernel_size (conv1 (r False)),
       stride = stride (conv1 (r False)),
       padding = padding (conv1 (r False)),
       bias = False\<rparr>
   \<and> fc (build_model r cfg) =
      \<lparr>in_features = 2048, out_features = 2 * future_num_frames (cfg_model_params cfg)\<rparr>
   \<and> other_layers (build_model r cfg) = other_layers (r False)"
  by (simp add: build_model_def Let_def)

text \<open>
  Claim C6. \<^verbatim>\<open>main\<close> spawns \<^verbatim>\<open>train\<close> exactly when \<^verbatim>\<open>load_the_state\<close> is false and
  \<^verbatim>\<open>test\<close> exactly when it is true: the flag selects evaluation, it does not resume
  training.
\<close>

theorem main_mode_switch:
  "(sp_target (main cfg parsed) = Train) = (\<not> load_the_state (cfg_train_params cfg))
   \<and> (sp_target (main cfg parsed) = Test) = load_the_state (cfg_train_params cfg)
   \<and> run_spawn env cfg (main cfg parsed) =
       (if load_the_state (cfg_train_params cfg)
        then map (\<lambda>i. Tested (test env cfg i (sp_args (main cfg parsed))))
               [0..<nat (gpus parsed)]
        else map (\<lambda>i. Trained (train env cfg i (sp_args (main cfg parsed))))
               [0..<nat (gpus parsed)])"
  by (simp add: main_def run_spawn_def Let_def)

text \<open>
  Claim C8. The backbone is said to be pretrained, but \<^verbatim>\<open>build_model\<close> calls the
  constructor with \<^verbatim>\<open>pretrained=False\<close>. For a constructor whose result records the flag
  in \<open>other_layers\<close> (1 for the pretrained weights, 0 otherwise), the built model holds 0.
\<close>

theorem build_model_not_pretrained:
  "other_layers
     (build_model (\<lambda>pretrained. example_resnet\<lparr>other_layers := (if pretrained then 1 else 0)\<rparr>)
        example_cfg) = 0"
  by (simp add: build_model_def Let_def)

text \<open>
  Claim C10, as stated, fails: the node rank does not enter the world size (the world
  size is the same for \<open>nr = 0\<close> and \<open>nr = 1\<close>), and the GPU count is used for more than
  the world size, namely as the number of spawned processes (two command lines with world
  size 8 spawn 4 and 2 processes).
\<close>

theorem cli_flags_counterexample:
  "world_size (sp_args (main example_cfg \<lparr>nodes = 2, gpus = 4, nr = 0\<rparr>))
     = world_size (sp_args (main example_cfg \<lparr>nodes = 2, gpus = 4, nr = 1\<rparr>))
   \<and> world_size (sp_args (main example_cfg \<lparr>nodes = 2, gpus = 4, nr = 0\<rparr>)) = 8
   \<and> sp_nprocs (main example_cfg \<lparr>nodes = 2, gpus = 4, nr = 0\<rparr>) = 4
   \<and> world_size (sp_args (main example_cfg \<lparr>nodes = 4, gpus = 2, nr = 0\<rparr>)) = 8
   \<and> sp_nprocs (main example_cfg \<lparr>nodes = 4, gpus = 2, nr = 0\<rparr>) = 2"
  by (simp add: main_def Let_def)

text \<open>\<^verbatim>\<open>train\<close> and \<^verbatim>\<open>test\<close> read only \<open>world_size\<close> from their arguments.\<close>

lemma train_world_size: "world_size a = world_size b \<Longrightarrow> train env cfg gpu a = train env cfg gpu b"
  by (simp add: train_def Let_def split: option.splits)

lemma test_world_size: "world_size a = world_size b \<Longrightarrow> test env cfg gpu a = test env cfg gpu b"
  by (simp add: test_def Let_def split: option.splits)

text \<open>
  Claim C10, amended. The world size is \<open>gpus * nodes\<close>; the GPU count is also the number
  of spawned processes; the node count is used for the world size only; the node rank is
  parsed and handed on but never read: it changes neither the spawn call's target and
  process count nor what the spawned processes compute, which read only the world size.
\<close>

theorem cli_flags_use:
  "world_size (sp_args (main cfg p)) = gpus p * nodes p
   \<and> sp_nprocs (main cfg p) = gpus p
   \<and> sp_target (main cfg (p\<lparr>nodes := n', gpus := g', nr := r'\<rparr>)) = sp_target (main cfg p)
   \<and> sp_nprocs (main cfg (p\<lparr>nodes := n', nr := r'\<rparr>)) = sp_nprocs (main cfg p)
   \<and> run_spawn env cfg (main cfg (p\<lparr>nr := r'\<rparr>)) = run_spawn env cfg (main cfg p)
   \<and> train env cfg gpu a
       = train env cfg gpu \<lparr>nodes = 0, gpus = 0, nr = 0, world_size = world_size a\<rparr>
   \<and> test env cfg gpu a
       = test env cfg gpu \<lparr>nodes = 0, gpus = 0, nr = 0, world_size = world_size a\<rparr>"
proof -
  have 1: "world_size (sp_args (main cfg p)) = gpus p * nodes p"
    and 2: "sp_nprocs (main cfg p) = gpus p"
    and 3: "sp_target (main cfg (p\<lparr>nodes := n', gpus := g', nr := r'\<rparr>)) = sp_target (main cfg p)"
    and 4: "sp_nprocs (main cfg (p\<lparr>nodes := n', nr := r'\<rparr>)) = sp_nprocs (main cfg p)"
    by (simp_all add: main_def Let_def)
  have tr: "train env cfg i (sp_args (main cfg (p\<lparr>nr := r'\<rparr>))) = train env cfg i (sp_args (main cfg p))" for i
    by (rule train_world_size) (simp add: main_def Let_def)
  have te: "test env cfg i (sp_args (main cfg (p\<lparr>nr := r'\<rparr>))) = test env cfg i (sp_args (main cfg p))" for i
    by (rule test_world_size) (simp add: main_def Let_def)
  have tg: "sp_target (main cfg (p\<lparr>nr := r'\<rparr>)) = sp_target (main cfg p)"
    "sp_nprocs (main cfg (p\<lparr>nr := r'\<rparr>)) = sp_nprocs (main cfg p)"
    by (simp_all add: main_def Let_def)
  have 5: "run_spawn env cfg (main cfg (p\<lparr>nr := r'\<rparr>)) = run_spawn env cfg (main cfg p)"
    unfolding run_spawn_def tg tr te ..
  have 6: "train env cfg gpu a
       = train env cfg gpu \<lparr>nodes = 0, gpus = 0, nr = 0, world_size = world_size a\<rparr>"
    by (rule train_world_size) simp
  have 7: "test env cfg gpu a
       = test env cfg gpu \<lparr>nodes = 0, gpus = 0, nr = 0, world_size = world_size a\<rparr>"
    by (rule test_world_size) simp
  from 1 2 3 4 5 6 7 show ?thesis by blast
qed

lemma replicate_4: "replicate 4 x = [x, x, x, x]"
  by (simp add: numeral_eq_Suc)

lemma example_net_batch:
  assumes "out_features (fc m) = 4"
  shows "example_net m (image example_batch)
     = Inr \<lparr>shape = [1, 4], data = [Fin 3, Fin 3, Fin 3, Fin 3]\<rparr>"
proof -
  have "chunks 1 25 (replicate 25 (Fin 3)) = [replicate 25 (Fin 3)]"
    by (simp add: chunks_def)
  then show ?thesis
    using assms by (simp add: example_net_def example_batch_def replicate_4)
qed

lemma example_net_batch2:
  assumes "out_features (fc m) = 4"
  shows "example_net m (image example_batch2)
     = Inr \<lparr>shape = [2, 4],
            data = [Fin 5, Fin 5, Fin 5, Fin 5, Fin 7, Fin 7, Fin 7, Fin 7]\<rparr>"
proof -
  have u: "[0..<2] = [0, 1]"
    by (simp add: upt_rec)
  have "chunks 2 25 (replicate 25 (Fin 5) @ replicate 25 (Fin 7))
      = [replicate 25 (Fin 5), replicate 25 (Fin 7)]"
    by (simp add: chunks_def u)
  then show ?thesis
    using assms by (simp add: example_net_def example_batch2_def replicate_4)
qed

lemma built_out_features:
  "out_features (fc (build_model (resnet50 example_env) example_cfg)) = 4"
  by (simp add: build_model_def example_cfg_def Let_def)

text \<open>
  Claim C7. For a batch whose targets have shape \<open>(B, future_num_frames, 2)\<close> and a model
  output of shape \<open>(B, n)\<close>, with \<open>n\<close> the output width of the final layer made by
  \<^verbatim>\<open>build_model\<close>, the reshape to the shape of the targets succeeds; whenever
  \<^verbatim>\<open>forward\<close> returns, its outputs have the shape of the targets; and it does return when
  the availabilities have shape \<open>(B, future_num_frames)\<close>.
\<close>

theorem forward_output_shape:
  assumes "shape (target_positions d) = [B, future_num_frames (cfg_model_params cfg), 2]"
    and "net (image d) = Inr y"
    and "shape y = [B, out_features (fc (build_model r cfg))]"
    and "wf_tensor y"
  shows "reshape y (shape (target_positions d))
           = Inr \<lparr>shape = shape (target_positions d), data = data y\<rparr>
         \<and> (\<forall>criterion loss outputs.
               forward fl d net device criterion = Inr (loss, outputs)
               \<longrightarrow> shape outputs = shape (target_positions d))
         \<and> (shape (target_availabilities d) = [B, future_num_frames (cfg_model_params cfg)]
             \<and> wf_tensor (target_positions d) \<and> wf_tensor (target_availabilities d)
            \<longrightarrow> (\<exists>loss outputs.
                   forward fl d net device (MSELoss_none fl) = Inr (loss, outputs)
                   \<and> shape outputs = shape (target_positions d)))"
proof -
  let ?F = "future_num_frames (cfg_model_params cfg)"
  have ly: "length (data y) = B * ?F * 2"
    using assms(3,4) by (simp add: wf_tensor_def build_model_def Let_def)
  have r: "reshape y (shape (target_positions d))
      = Inr \<lparr>shape = shape (target_positions d), data = data y\<rparr>"
    using assms(1) ly by (simp add: reshape_def)
  have a: "shape outputs = shape (target_positions d)"
    if "forward fl d net device criterion = Inr (loss, outputs)" for criterion loss outputs
    using that assms(2) r
    by (auto simp: forward_def cuda_def Let_def split: sum.splits)
  have e: "\<exists>loss outputs. forward fl d net device (MSELoss_none fl) = Inr (loss, outputs)
             \<and> shape outputs = shape (target_positions d)"
    if h: "shape (target_availabilities d) = [B, ?F]"
      "wf_tensor (target_positions d)" "wf_tensor (target_availabilities d)"
  proof -
    have st: "shape (target_positions d) = [B, ?F] @ [2]"
      using assms(1) by simp
    have ly': "length (data y) = prod_list [B, ?F] * 2"
      using ly by simp
    from forward_eq[of net d y "[B, ?F]" 2 fl device, OF assms(2) st h(1) h(2) h(3) ly']
    show ?thesis using assms(1) by simp
  qed
  from r a e show ?thesis by blast
qed

theorem forward_output_shape_witness:
  "shape (target_positions example_batch)
      = [1, future_num_frames (cfg_model_params example_cfg), 2]
   \<and> run_model example_env True (build_model (resnet50 example_env) example_cfg)
        (image example_batch) = Inr \<lparr>shape = [1, 4], data = [Fin 3, Fin 3, Fin 3, Fin 3]\<rparr>
   \<and> shape \<lparr>shape = [1, 4], data = [Fin 3, Fin 3, Fin 3, Fin 3]\<rparr>
      = [1, out_features (fc (build_model (resnet50 example_env) example_cfg))]
   \<and> wf_tensor \<lparr>shape = [1, 4], data = [Fin 3, Fin 3, Fin 3, Fin 3]\<rparr>
   \<and> reshape \<lparr>shape = [1, 4], data = [Fin 3, Fin 3, Fin 3, Fin 3]\<rparr> (shape (target_positions example_batch))
      = Inr \<lparr>shape = [1, 2, 2], data = [Fin 3, Fin 3, Fin 3, Fin 3]\<rparr>
   \<and> (\<exists>loss outputs.
         forward (ops example_env) example_batch
           (run_model example_env True (build_model (resnet50 example_env) example_cfg))
           0 (MSELoss_none (ops example_env)) = Inr (loss, outputs)
         \<and> shape outputs = [1, 2, 2])"
proof -
  let ?net = "run_model example_env True (build_model (resnet50 example_env) example_cfg)"
  let ?y = "\<lparr>shape = [1, 4], data = [Fin 3, Fin 3, Fin 3, Fin 3]\<rparr>"
  have h1: "shape (target_positions example_batch)
      = [1, future_num_frames (cfg_model_params example_cfg), 2]"
    by (simp add: example_batch_def example_cfg_def)
  have h2: "?net (image example_batch) = Inr ?y"
    using example_net_batch[OF built_out_features] by (simp add: example_env_def)
  have h3: "shape ?y = [1, out_features (fc (build_model (resnet50 example_env) example_cfg))]"
    by (simp add: build_model_def example_cfg_def Let_def)
  have h4: "wf_tensor ?y"
    by (simp add: wf_tensor_def)
  have h5: "shape (target_availabilities example_batch)
      = [1, future_num_frames (cfg_model_params example_cfg)]"
    "wf_tensor (target_positions example_batch)"
    "wf_tensor (target_availabilities example_batch)"
    by (simp_all add: example_batch_def example_cfg_def wf_tensor_def)
  from forward_output_shape[of example_batch 1 example_cfg ?net ?y "resnet50 example_env"
      "ops example_env" 0,
      OF h1 h2 h3 h4] h5
  have "reshape ?y (shape (target_positions example_batch))
      = Inr \<lparr>shape = shape (target_positions example_batch), data = data ?y\<rparr>"
    and "\<exists>loss outputs. forward (ops example_env) example_batch ?net 0 (MSELoss_none (ops example_env)) = Inr (loss, outputs)
        \<and> shape outputs = shape (target_positions example_batch)"
    by blast+
  then show ?thesis
    using h1 h2 h3 h4 by (simp add: example_batch_def)
qed


section \<open>The training loop\<close>

lemma for_loop_append:
  "for_loop body st (xs @ ys) =
     (case for_loop body st xs of Inl e \<Rightarrow> Inl e | Inr st' \<Rightarrow> for_loop body st' ys)"
  by (induction xs arbitrary: st) (auto split: sum.splits)

lemma for_loop_invariant:
  assumes "\<And>s x s'. I s \<Longrightarrow> body s x = Inr s' \<Longrightarrow> I s'"
    and "I st" and "for_loop body st xs = Inr st'"
  shows "I st'"
  using assms(2,3)
proof (induction xs arbitrary: st)
  case Nil
  then show ?case by simp
next
  case (Cons x xs)
  then show ?case
    by (auto split: sum.splits intro: assms(1))
qed

lemma for_loop_collect:
  assumes "\<And>s x s'. body s x = Inr s' \<Longrightarrow> f s' = f s @ h x"
    and "for_loop body st xs = Inr st'"
  shows "f st' = f st @ concat (map h xs)"
  using assms(2)
proof (induction xs arbitrary: st)
  case Nil
  then show ?case by simp
next
  case (Cons x xs)
  from Cons.prems obtain s1 where s1: "body st x = Inr s1" "for_loop body s1 xs = Inr st'"
    by (auto split: sum.splits)
  from Cons.IH[OF s1(2)] assms(1)[OF s1(1)] show ?case by simp
qed

lemma for_loop_cong_inv:
  assumes "\<And>s x s'. I s \<Longrightarrow> body s x = Inr s' \<Longrightarrow> I s'"
    and "\<And>s x. I s \<Longrightarrow> body s x = body' s x"
    and "I st"
  shows "for_loop body st xs = for_loop body' st xs"
  using assms(3)
proof (induction xs arbitrary: st)
  case Nil
  then show ?case by simp
next
  case (Cons x xs)
  show ?case
  proof (cases "body st x")
    case (Inl e)
    then show ?thesis using assms(2)[OF Cons.prems, of x] by simp
  next
    case (Inr s1)
    then have "I s1" using assms(1)[OF Cons.prems] by simp
    from Cons.IH[OF this] show ?thesis
      using Inr assms(2)[OF Cons.prems, of x] by simp
  qed
qed

lemma concat_map_if:
  "concat (map (\<lambda>x. if P x then [g x] else []) xs) = map g (filter P xs)"
  by (induction xs) auto

lemma train_iteration_Inr:
  assumes "train_iteration env cfg gpu dl epoch st i = Inr st'"
  shows "checkpoint_every_n_steps (cfg_train_params cfg) \<noteq> 0"
    and "algo (optimizer st') = algo (optimizer st)"
    and "lr (optimizer st') = lr (optimizer st)"
    and "\<exists>loss. losses_train st' = losses_train st @ [loss]"
    and "saved st' = saved st @
          (if int i mod checkpoint_every_n_steps (cfg_train_params cfg) = 0 \<and> i \<noteq> 0 \<and> gpu = 0
           then [(ResnetAt epoch i,
                  [(''model'', ModelState (model st')),
                   (''optimizer'', OptimizerState (optimizer st'))])]
           else [])"
  using assms
  by (auto simp: train_iteration_def Let_def split: sum.splits prod.splits if_splits)

text \<open>The training run on the concrete inputs.\<close>

lemma example_forward:
  assumes "out_features (fc m) = 4"
  shows "forward (ops example_env) example_batch (run_model example_env t m) g
       (MSELoss_none (ops example_env))
     = Inr (Fin (5 / 4), \<lparr>shape = [1, 2, 2], data = [Fin 3, Fin 3, Fin 3, Fin 3]\<rparr>)"
proof -
  let ?y = "\<lparr>shape = [1, 4], data = [Fin 3, Fin 3, Fin 3, Fin 3]\<rparr>"
  have o: "ops example_env = example_ops"
    by (simp add: example_env_def)
  have n: "run_model example_env t m (image example_batch) = Inr ?y"
    using example_net_batch[OF assms] by (simp add: example_env_def)
  have h: "shape (target_positions example_batch) = [1, 2] @ [2]"
    "shape (target_availabilities example_batch) = [1, 2]"
    "wf_tensor (target_positions example_batch)"
    "wf_tensor (target_availabilities example_batch)"
    "length (data ?y) = prod_list [1, 2] * 2"
    by (simp_all add: example_batch_def wf_tensor_def)
  have r: "replicate 2 x = [x, x]" for x :: fval
    by (simp add: numeral_2_eq_2)
  have q: "sq_err example_ops (Fin 3) (Fin 1) = Fin 4"
    "sq_err example_ops (Fin 3) (Fin 2) = Fin 1"
    "sq_err example_ops (Fin 3) (Fin 3) = Fin 0"
    "sq_err example_ops (Fin 3) (Fin 4) = Fin 1"
    by (simp_all add: sq_err_def example_ops_simps round_range_small)
  show ?thesis
    unfolding o forward_eq[of "run_model example_env t m" example_batch ?y "[1, 2]" 2
        example_ops g, OF n h]
    by (simp add: example_batch_def mean_def r q example_ops_simps sequential_mean_def
        round_range_small)
qed

lemma example_iteration:
  assumes "out_features (fc (model st)) = 4"
    and f: "fetch dl (tr_it st) = Inr (example_batch, rest)"
  shows "train_iteration example_env example_cfg 0 dl epoch st i =
     Inr ((if int i mod 2 = 0 \<and> i \<noteq> 0 then
            (\<lambda>s. s\<lparr>saved := saved s @ [(ResnetAt epoch i,
                [(''model'', ModelState (model s)), (''optimizer'', OptimizerState (optimizer s))])]\<rparr>)
           else (\<lambda>s. s))
          (st\<lparr>tr_it := rest,
              model := (model st)\<lparr>other_layers := other_layers (model st)
                 + (case algo (optimizer st) of SGD \<Rightarrow> 1 | Adam \<Rightarrow> 2)\<rparr>,
              optimizer := (optimizer st)\<lparr>opt_state := Suc (opt_state (optimizer st))\<rparr>,
              losses_train := losses_train st @ [Fin (5 / 4)]\<rparr>))"
proof -
  have o: "optimizer_step example_env a r os (model st) example_batch
      = Inr (Suc os, (model st)\<lparr>other_layers := other_layers (model st)
                 + (case a of SGD \<Rightarrow> 1 | Adam \<Rightarrow> 2)\<rparr>)" for a r os
    by (simp add: example_env_def)
  have c: "checkpoint_every_n_steps (cfg_train_params example_cfg) = 2"
    by (simp add: example_cfg_def)
  show ?thesis
    unfolding train_iteration_def f c Let_def
    by (simp add: example_forward[OF assms(1)] o)
qed

lemma example_epoch:
  "train_epoch example_env example_cfg 0 example_loader example_start 0 = Inr example_final"
proof -
  let ?dl = "example_loader"
  let ?m0 = "build_model (resnet50 example_env) example_cfg"
  let ?o0 = "\<lparr>algo = Adam, lr = 1 / 1000, opt_state = 0::nat\<rparr>"
  let ?l = "Fin (5 / 4)"
  let ?s0 = "\<lparr>tr_it = [Inr example_batch, Inr example_batch], model = ?m0, optimizer = ?o0,
             losses_train = [], saved = []\<rparr>"
  let ?s1 = "\<lparr>tr_it = [Inr example_batch], model = ?m0\<lparr>other_layers := 2\<rparr>,
             optimizer = \<lparr>algo = Adam, lr = 1 / 1000, opt_state = 1::nat\<rparr>,
             losses_train = [?l], saved = []\<rparr>"
  let ?s2 = "\<lparr>tr_it = [], model = ?m0\<lparr>other_layers := 4\<rparr>,
             optimizer = \<lparr>algo = Adam, lr = 1 / 1000, opt_state = 2::nat\<rparr>,
             losses_train = [?l, ?l], saved = []\<rparr>"
  have ol: "other_layers ?m0 = 0"
    by (simp add: build_model_def Let_def example_env_def example_resnet_def)
  have i0: "train_iteration example_env example_cfg 0 ?dl 0 ?s0 0 = Inr ?s1"
    by (subst example_iteration[where rest = "[Inr example_batch]"])
      (simp_all add: built_out_features fetch_def next_item_def ol)
  have i1: "train_iteration example_env example_cfg 0 ?dl 0 ?s1 1 = Inr ?s2"
    by (subst example_iteration[where rest = "[]"])
      (simp_all add: built_out_features fetch_def next_item_def)
  have i2: "train_iteration example_env example_cfg 0 ?dl 0 ?s2 2 = Inr example_final"
    by (subst example_iteration[where rest = "[Inr example_batch]"])
      (simp_all add: built_out_features fetch_def next_item_def iter_def example_final_def
        example_loader_def)
  have s0: "example_start\<lparr>tr_it := iter ?dl, losses_train := []\<rparr> = ?s0"
    by (simp add: iter_def example_start_def example_loader_def)
  have n: "[0..<dl_len ?dl] = [0, 1, 2]"
    by (simp add: upt_rec example_loader_def)
  show ?thesis
    by (simp only: train_epoch_def s0 n for_loop.simps i0 i1 i2 sum.case)
qed

lemma example_train: "train example_env example_cfg 0 example_args = Inr example_final"
proof -
  have tl: "train_loader example_env c w r = example_loader" for c w r
    by (simp add: example_env_def)
  have ip: "init_process_group example_env w r = None" for w r
    by (simp add: example_env_def)
  have io: "init_opt_state example_env m = 0" for m
    by (simp add: example_env_def)
  have cf: "model_num (cfg_train_params example_cfg) = 0"
    "max_num_epochs (cfg_train_params example_cfg) = 1"
    by (simp_all add: example_cfg_def)
  show ?thesis
    unfolding train_def ip tl cf optim_Adam_def io Let_def
    using example_epoch by (simp add: example_start_def)
qed

lemma train_epoch_saved:
  assumes "train_epoch env cfg gpu dl st epoch = Inr st'"
  shows "map fst (saved st') = map fst (saved st) @
     map (ResnetAt epoch)
       (filter (\<lambda>i. int i mod checkpoint_every_n_steps (cfg_train_params cfg) = 0
                     \<and> i \<noteq> 0 \<and> gpu = 0) [0..<dl_len dl])"
proof -
  let ?P = "\<lambda>i. int i mod checkpoint_every_n_steps (cfg_train_params cfg) = 0 \<and> i \<noteq> 0 \<and> gpu = 0"
  have step: "map fst (saved s') = map fst (saved s) @ (if ?P i then [ResnetAt epoch i] else [])"
    if "train_iteration env cfg gpu dl epoch s i = Inr s'" for s i s'
    using train_iteration_Inr(5)[OF that] by simp
  from for_loop_collect[of "train_iteration env cfg gpu dl epoch" "\<lambda>s. map fst (saved s)"
      "\<lambda>i. if ?P i then [ResnetAt epoch i] else []", OF step assms[unfolded train_epoch_def]]
  show ?thesis
    by (simp add: concat_map_if)
qed

lemma train_epoch_content:
  assumes "list_all (\<lambda>f. map fst (snd f) = [''model'', ''optimizer'']) (saved st)"
    and "train_epoch env cfg gpu dl st epoch = Inr st'"
  shows "list_all (\<lambda>f. map fst (snd f) = [''model'', ''optimizer'']) (saved st')"
proof -
  let ?I = "\<lambda>s. list_all (\<lambda>f. map fst (snd f) = [''model'', ''optimizer'']) (saved s)"
  have step: "?I s'" if "?I s" "train_iteration env cfg gpu dl epoch s i = Inr s'" for s i s'
    using that(1) train_iteration_Inr(5)[OF that(2)] by simp
  have "?I (st\<lparr>tr_it := iter dl, losses_train := []\<rparr>)"
    using assms(1) by simp
  from for_loop_invariant[of ?I, OF step this assms(2)[unfolded train_epoch_def]]
  show ?thesis .
qed

lemma train_Inr:
  assumes "train env cfg gpu args = Inr st"
  obtains m where
    "for_loop (train_epoch env cfg gpu
        (train_loader env (cfg_train_data_loader cfg) (world_size args) gpu))
       \<lparr>tr_it = [], model = m, optimizer = optim_Adam env (build_model (resnet50 env) cfg) (1 / 1000),
        losses_train = [], saved = []\<rparr>
       [0..<nat (max_num_epochs (cfg_train_params cfg))] = Inr st"
  using assms
  by (auto simp: train_def Let_def split: option.splits sum.splits if_splits)

text \<open>
  Claim C3. An iteration of the training loop that completes appends a checkpoint exactly
  when \<open>index mod checkpoint_every_n_steps = 0\<close>, \<open>index \<noteq> 0\<close> and the rank is 0, and
  then it is the file of that epoch and index, holding the state of the model under
  \<^verbatim>\<open>'model'\<close> and the state of the optimizer under \<^verbatim>\<open>'optimizer'\<close>. A training run that
  returns has written the files of exactly those indices of every epoch, in order, each
  with exactly these two keys.
\<close>

theorem checkpoint_saving:
  "(\<forall>st i st'.
      train_iteration env cfg gpu dl epoch st i = Inr st' \<longrightarrow>
      saved st' = saved st @
        (if int i mod checkpoint_every_n_steps (cfg_train_params cfg) = 0 \<and> i \<noteq> 0 \<and> gpu = 0
         then [(ResnetAt epoch i,
                [(''model'', ModelState (model st')),
                 (''optimizer'', OptimizerState (optimizer st'))])]
         else []))
   \<and> (\<forall>st.
      train env cfg gpu args = Inr st \<longrightarrow>
      map fst (saved st) =
        concat (map (\<lambda>e. map (ResnetAt e)
          (filter (\<lambda>i. int i mod checkpoint_every_n_steps (cfg_train_params cfg) = 0
                        \<and> i \<noteq> 0 \<and> gpu = 0)
             [0..<dl_len (train_loader env (cfg_train_data_loader cfg) (world_size args) gpu)]))
          [0..<nat (max_num_epochs (cfg_train_params cfg))])
      \<and> list_all (\<lambda>f. map fst (snd f) = [''model'', ''optimizer'']) (saved st))"
proof (intro conjI allI impI)
  fix st i st'
  assume "train_iteration env cfg gpu dl epoch st i = Inr st'"
  from train_iteration_Inr(5)[OF this]
  show "saved st' = saved st @
        (if int i mod checkpoint_every_n_steps (cfg_train_params cfg) = 0 \<and> i \<noteq> 0 \<and> gpu = 0
         then [(ResnetAt epoch i,
                [(''model'', ModelState (model st')),
                 (''optimizer'', OptimizerState (optimizer st'))])]
         else [])" .
next
  fix st
  assume t: "train env cfg gpu args = Inr st"
  let ?dl = "train_loader env (cfg_train_data_loader cfg) (world_size args) gpu"
  from t obtain m where
    l: "for_loop (train_epoch env cfg gpu ?dl)
       \<lparr>tr_it = [], model = m, optimizer = optim_Adam env (build_model (resnet50 env) cfg) (1 / 1000),
        losses_train = [], saved = []\<rparr>
       [0..<nat (max_num_epochs (cfg_train_params cfg))] = Inr st"
    by (rule train_Inr)
  from for_loop_collect[of "train_epoch env cfg gpu ?dl" "\<lambda>s. map fst (saved s)"
      "\<lambda>e. map (ResnetAt e)
          (filter (\<lambda>i. int i mod checkpoint_every_n_steps (cfg_train_params cfg) = 0
                        \<and> i \<noteq> 0 \<and> gpu = 0) [0..<dl_len ?dl])", OF train_epoch_saved l]
  show "map fst (saved st) =
        concat (map (\<lambda>e. map (ResnetAt e)
          (filter (\<lambda>i. int i mod checkpoint_every_n_steps (cfg_train_params cfg) = 0
                        \<and> i \<noteq> 0 \<and> gpu = 0) [0..<dl_len ?dl]))
          [0..<nat (max_num_epochs (cfg_train_params cfg))])"
    by simp
next
  fix st
  assume t: "train env cfg gpu args = Inr st"
  let ?dl = "train_loader env (cfg_train_data_loader cfg) (world_size args) gpu"
  let ?I = "\<lambda>s. list_all (\<lambda>f. map fst (snd f) = [''model'', ''optimizer'']) (saved s)"
  from t obtain m where
    l: "for_loop (train_epoch env cfg gpu ?dl)
       \<lparr>tr_it = [], model = m, optimizer = optim_Adam env (build_model (resnet50 env) cfg) (1 / 1000),
        losses_train = [], saved = []\<rparr>
       [0..<nat (max_num_epochs (cfg_train_params cfg))] = Inr st"
    by (rule train_Inr)
  show "?I st"
    by (rule for_loop_invariant[of ?I, OF train_epoch_content _ l]) simp_all
qed

theorem checkpoint_saving_witness:
  "train example_env example_cfg 0 example_args = Inr example_final
   \<and> map fst (saved example_final) = [ResnetAt 0 2]
   \<and> list_all (\<lambda>f. map fst (snd f) = [''model'', ''optimizer'']) (saved example_final)"
proof -
  have f: "filter (\<lambda>i. int i mod 2 = 0 \<and> 0 < i) [0..<3] = [2]"
    by (simp add: upt_rec)
  from checkpoint_saving[of example_env example_cfg 0 undefined 0 example_args] example_train
  have "map fst (saved example_final) =
        concat (map (\<lambda>e. map (ResnetAt e)
          (filter (\<lambda>i. int i mod checkpoint_every_n_steps (cfg_train_params example_cfg) = 0
                        \<and> i \<noteq> 0 \<and> (0::nat) = 0)
             [0..<dl_len (train_loader example_env (cfg_train_data_loader example_cfg)
                 (world_size example_args) 0)]))
          [0..<nat (max_num_epochs (cfg_train_params example_cfg))])"
    and l: "list_all (\<lambda>f. map fst (snd f) = [''model'', ''optimizer'']) (saved example_final)"
    by blast+
  then have "map fst (saved example_final) = [ResnetAt 0 2]"
    by (simp add: example_cfg_def example_env_def example_loader_def f)
  with l example_train show ?thesis by simp
qed


section \<open>The optimizer\<close>

lemma train_iteration_Adam:
  assumes "algo (optimizer st) = Adam" and "lr (optimizer st) = 1 / 1000"
  shows "train_iteration (env\<lparr>optimizer_step := \<lambda>a r. optimizer_step env Adam (1 / 1000)\<rparr>)
           cfg gpu dl epoch st i
         = train_iteration env cfg gpu dl epoch st i"
proof -
  let ?env' = "env\<lparr>optimizer_step := \<lambda>a r. optimizer_step env Adam (1 / 1000)\<rparr>"
  have rm: "run_model ?env' = run_model env"
    by simp
  have op: "ops ?env' = ops env"
    by simp
  have "optimizer_step ?env' (algo (optimizer st)) (lr (optimizer st))
      = optimizer_step env Adam (1 / 1000)"
    by simp
  also have "\<dots> = optimizer_step env (algo (optimizer st)) (lr (optimizer st))"
    by (simp only: assms)
  finally have os: "optimizer_step ?env' (algo (optimizer st)) (lr (optimizer st))
      = optimizer_step env (algo (optimizer st)) (lr (optimizer st))" .
  show ?thesis
    unfolding train_iteration_def rm op os ..
qed

lemma train_epoch_Adam_inv:
  assumes "algo (optimizer st) = Adam \<and> lr (optimizer st) = 1 / 1000"
    and "train_epoch env cfg gpu dl st epoch = Inr st'"
  shows "algo (optimizer st') = Adam \<and> lr (optimizer st') = 1 / 1000"
proof -
  let ?I = "\<lambda>s. algo (optimizer s) = Adam \<and> lr (optimizer s) = 1 / 1000"
  have step: "?I s'" if "?I s" "train_iteration env cfg gpu dl epoch s i = Inr s'" for s i s'
    using that(1) train_iteration_Inr(2,3)[OF that(2)] by simp
  have "?I (st\<lparr>tr_it := iter dl, losses_train := []\<rparr>)"
    using assms(1) by simp
  from for_loop_invariant[of ?I, OF step this assms(2)[unfolded train_epoch_def]]
  show ?thesis .
qed

lemma train_epoch_Adam:
  assumes "algo (optimizer st) = Adam \<and> lr (optimizer st) = 1 / 1000"
  shows "train_epoch env cfg gpu dl st epoch
         = train_epoch (env\<lparr>optimizer_step := \<lambda>a r. optimizer_step env Adam (1 / 1000)\<rparr>)
             cfg gpu dl st epoch"
proof -
  let ?I = "\<lambda>s. algo (optimizer s) = Adam \<and> lr (optimizer s) = 1 / 1000"
  have step: "?I s'" if "?I s" "train_iteration env cfg gpu dl epoch s i = Inr s'" for s i s'
    using that(1) train_iteration_Inr(2,3)[OF that(2)] by simp
  have agree: "train_iteration env cfg gpu dl epoch s i
      = train_iteration (env\<lparr>optimizer_step := \<lambda>a r. optimizer_step env Adam (1 / 1000)\<rparr>)
           cfg gpu dl epoch s i" if "?I s" for s i
    using that train_iteration_Adam[of s env cfg gpu dl epoch i] by simp
  have "?I (st\<lparr>tr_it := iter dl, losses_train := []\<rparr>)"
    using assms by simp
  from for_loop_cong_inv[of ?I, OF step agree this]
  show ?thesis
    unfolding train_epoch_def .
qed

text \<open>
  Claim C9, amended. The optimizer that \<^verbatim>\<open>train\<close> constructs and uses is Adam with
  learning rate 0.001: a run is unchanged when every update is made by the rule of Adam
  at that rate, whatever the other rules are, and the optimizer of a run that returns is
  Adam at that rate.
\<close>

theorem train_uses_Adam:
  "train (env\<lparr>optimizer_step := \<lambda>a r. optimizer_step env Adam (1 / 1000)\<rparr>) cfg gpu args
     = train env cfg gpu args
   \<and> (\<forall>st. train env cfg gpu args = Inr st \<longrightarrow>
         algo (optimizer st) = Adam \<and> lr (optimizer st) = 1 / 1000)"
proof
  let ?env' = "env\<lparr>optimizer_step := \<lambda>a r. optimizer_step env Adam (1 / 1000)\<rparr>"
  let ?I = "\<lambda>s. algo (optimizer s) = Adam \<and> lr (optimizer s) = 1 / 1000"
  let ?dl = "train_loader env (cfg_train_data_loader cfg) (world_size args) gpu"
  have loop: "for_loop (train_epoch env cfg gpu ?dl) s xs
      = for_loop (train_epoch ?env' cfg gpu ?dl) s xs" if "?I s" for s :: "('a, 'b) train_state" and xs
    by (rule for_loop_cong_inv[of ?I, OF train_epoch_Adam_inv train_epoch_Adam that])
  have o: "optim_Adam ?env' m r = optim_Adam env m r" for m r
    by (simp add: optim_Adam_def)
  have i: "?I \<lparr>tr_it = [], model = m, optimizer = optim_Adam env m0 (1 / 1000),
        losses_train = [], saved = []\<rparr>" for m m0
    by (simp add: optim_Adam_def)
  have pf: "params_fit ?env' = params_fit env"
    by simp
  have l: "load_state_dict ?env' m ck = load_state_dict env m ck" for m ck
    unfolding load_state_dict_def pf ..
  show "train ?env' cfg gpu args = train env cfg gpu args"
    unfolding train_def Let_def
    by (simp add: o l loop[OF i] split: option.splits sum.splits)
next
  let ?I = "\<lambda>s. algo (optimizer s) = Adam \<and> lr (optimizer s) = 1 / 1000"
  show "\<forall>st. train env cfg gpu args = Inr st \<longrightarrow> ?I st"
  proof (intro allI impI)
    fix st
    assume "train env cfg gpu args = Inr st"
    then obtain m where
      l: "for_loop (train_epoch env cfg gpu
            (train_loader env (cfg_train_data_loader cfg) (world_size args) gpu))
         \<lparr>tr_it = [], model = m,
          optimizer = optim_Adam env (build_model (resnet50 env) cfg) (1 / 1000),
          losses_train = [], saved = []\<rparr>
         [0..<nat (max_num_epochs (cfg_train_params cfg))] = Inr st"
      by (rule train_Inr)
    show "?I st"
      by (rule for_loop_invariant[of ?I, OF train_epoch_Adam_inv _ l])
        (simp_all add: optim_Adam_def)
  qed
qed

theorem train_uses_Adam_witness:
  "train example_env example_cfg 0 example_args = Inr example_final
   \<and> algo (optimizer example_final) = Adam
   \<and> lr (optimizer example_final) = 1 / 1000
   \<and> train (example_env\<lparr>optimizer_step := \<lambda>a r. optimizer_step example_env Adam (1 / 1000)\<rparr>)
        example_cfg 0 example_args = Inr example_final"
  using train_uses_Adam[of example_env example_cfg 0 example_args] example_train
  by simp

text \<open>
  Claim C9, as stated, fails: on the concrete inputs the optimizer of the training run is
  not SGD, and the three updates have added 6 to the parameters, as the rule of Adam does
  there (2 per update), not 3, as the rule of SGD would.
\<close>

theorem optimizer_sgd_counterexample:
  "train example_env example_cfg 0 example_args = Inr example_final
   \<and> algo (optimizer example_final) \<noteq> SGD
   \<and> other_layers (model example_final) = 6"
  using example_train by (simp add: example_final_def)


section \<open>Iterator exhaustion and other exceptions\<close>

lemma for_loop_count:
  assumes "\<And>s x s'. body s x = Inr s' \<Longrightarrow> n s' = Suc (n s)"
    and "for_loop body st xs = Inr st'"
  shows "n st' = n st + length xs"
  using assms(2)
proof (induction xs arbitrary: st)
  case Nil
  then show ?case by simp
next
  case (Cons x xs)
  from Cons.prems obtain s1 where s1: "body st x = Inr s1" "for_loop body s1 xs = Inr st'"
    by (auto split: sum.splits)
  from Cons.IH[OF s1(2)] assms(1)[OF s1(1)] show ?case by simp
qed

lemma for_loop_total:
  assumes "\<And>s x. J s \<Longrightarrow> \<exists>s'. body s x = Inr s' \<and> J s'"
    and "J st"
  shows "\<exists>st'. for_loop body st xs = Inr st' \<and> J st'"
  using assms(2)
proof (induction xs arbitrary: st)
  case Nil
  then show ?case by simp
next
  case (Cons x xs)
  from assms(1)[OF Cons.prems, of x] obtain s1 where s1: "body st x = Inr s1" "J s1"
    by blast
  from Cons.IH[OF s1(2)] s1(1) show ?case by simp
qed

lemma for_loop_raise:
  assumes "for_loop body st xs = Inr s" and "body s x = Inl e"
  shows "for_loop body st (xs @ x # ys) = Inl e"
  using assms by (simp add: for_loop_append)

lemma upt_split: "i < n \<Longrightarrow> [0..<n] = [0..<i] @ i # [Suc i..<n]"
  by (metis le_add1 less_imp_le_nat plus_nat.add_0 upt_add_eq_append upt_conv_Cons le_add_diff_inverse)

lemma fetch_cases:
  "(next_item it = Inl StopIteration \<longrightarrow> fetch dl it = next_item (iter dl))
   \<and> (\<forall>e. next_item it = Inl e \<and> e \<noteq> StopIteration \<longrightarrow> fetch dl it = Inl e)
   \<and> (\<forall>r. next_item it = Inr r \<longrightarrow> fetch dl it = Inr r)"
  by (simp add: fetch_def)

lemma fetch_batches:
  assumes "dl_items dl = map Inr bs" and "bs \<noteq> []"
    and "it = map Inr bs'" and "set bs' \<subseteq> set bs"
  shows "\<exists>b bs''. fetch dl it = Inr (b, map Inr bs'') \<and> b \<in> set bs \<and> set bs'' \<subseteq> set bs"
proof (cases bs')
  case Nil
  from assms(2) obtain b rest where "bs = b # rest"
    by (cases bs) auto
  then show ?thesis
    using Nil assms(1,3) by (auto simp: fetch_def next_item_def iter_def)
next
  case (Cons b rest)
  then show ?thesis
    using assms(3,4) by (auto simp: fetch_def next_item_def)
qed

lemma train_epoch_length:
  assumes "train_epoch env cfg gpu dl st epoch = Inr st'"
  shows "length (losses_train st') = dl_len dl"
proof -
  have step: "length (losses_train s') = Suc (length (losses_train s))"
    if "train_iteration env cfg gpu dl epoch s i = Inr s'" for s i s'
    using train_iteration_Inr(4)[OF that] by auto
  from for_loop_count[of "train_iteration env cfg gpu dl epoch" "\<lambda>s. length (losses_train s)",
      OF step assms[unfolded train_epoch_def]]
  show ?thesis by simp
qed

lemma train_epoch_returns:
  assumes items: "dl_items dl = map Inr bs" and ne: "bs \<noteq> []"
    and fw: "\<And>b m. b \<in> set bs \<Longrightarrow> \<exists>r. forward (ops env) b (run_model env True m) gpu (MSELoss_none (ops env)) = Inr r"
    and os: "\<And>a r s m b. \<exists>res. optimizer_step env a r s m b = Inr res"
    and ck: "checkpoint_every_n_steps (cfg_train_params cfg) \<noteq> 0"
  shows "\<exists>st'. train_epoch env cfg gpu dl st epoch = Inr st'"
proof -
  let ?J = "\<lambda>s::('a, 'b) train_state. \<exists>bs'. tr_it s = map Inr bs' \<and> set bs' \<subseteq> set bs"
  have step: "\<exists>s'. train_iteration env cfg gpu dl epoch s i = Inr s' \<and> ?J s'" if "?J s" for s i
  proof -
    from that obtain bs' where b: "tr_it s = map Inr bs'" "set bs' \<subseteq> set bs"
      by blast
    from fetch_batches[OF items ne b] obtain b bs'' where
      f: "fetch dl (tr_it s) = Inr (b, map Inr bs'')" "b \<in> set bs" "set bs'' \<subseteq> set bs"
      by blast
    from fw[OF f(2), of "model s"] obtain loss out where
      w: "forward (ops env) b (run_model env True (model s)) gpu (MSELoss_none (ops env)) = Inr (loss, out)"
      by (metis surj_pair)
    from os[of "algo (optimizer s)" "lr (optimizer s)" "opt_state (optimizer s)" "model s" b]
    obtain os' m' where
      o: "optimizer_step env (algo (optimizer s)) (lr (optimizer s)) (opt_state (optimizer s))
            (model s) b = Inr (os', m')"
      by (metis surj_pair)
    show ?thesis
      using ck f(3) by (auto simp: train_iteration_def Let_def f(1) w o)
  qed
  have init: "?J (st\<lparr>tr_it := iter dl, losses_train := []\<rparr>)"
    using items by (auto simp: iter_def)
  have "\<exists>st'. for_loop (train_iteration env cfg gpu dl epoch)
          (st\<lparr>tr_it := iter dl, losses_train := []\<rparr>) [0..<dl_len dl] = Inr st' \<and> ?J st'"
    by (rule for_loop_total[where J = ?J]) (use step init in blast)+
  then show ?thesis
    unfolding train_epoch_def by blast
qed

lemma train_iteration_raises:
  "(\<forall>e. fetch dl (tr_it st) = Inl e \<longrightarrow> train_iteration env cfg gpu dl epoch st i = Inl e)
   \<and> (\<forall>b it' e. fetch dl (tr_it st) = Inr (b, it')
         \<and> forward (ops env) b (run_model env True (model st)) gpu (MSELoss_none (ops env)) = Inl e
        \<longrightarrow> train_iteration env cfg gpu dl epoch st i = Inl e)
   \<and> (\<forall>b it' r e. fetch dl (tr_it st) = Inr (b, it')
         \<and> forward (ops env) b (run_model env True (model st)) gpu (MSELoss_none (ops env)) = Inr r
         \<and> optimizer_step env (algo (optimizer st)) (lr (optimizer st))
              (opt_state (optimizer st)) (model st) b = Inl e
        \<longrightarrow> train_iteration env cfg gpu dl epoch st i = Inl e)"
  by (auto simp: train_iteration_def Let_def split: prod.splits)

lemma train_epoch_raises:
  assumes "i < dl_len dl"
    and "for_loop (train_iteration env cfg gpu dl epoch)
           (st\<lparr>tr_it := iter dl, losses_train := []\<rparr>) [0..<i] = Inr s"
    and "train_iteration env cfg gpu dl epoch s i = Inl e"
  shows "train_epoch env cfg gpu dl st epoch = Inl e"
  unfolding train_epoch_def upt_split[OF assms(1)]
  by (rule for_loop_raise[OF assms(2,3)])

lemma train_raises:
  assumes "init_process_group env (world_size args) gpu = None"
    and "(if model_num (cfg_train_params cfg) \<noteq> 0
          then (case torch_load env (Resnet (model_num (cfg_train_params cfg))) of
                  Inl e \<Rightarrow> Inl e
                | Inr ck \<Rightarrow> load_state_dict env (build_model (resnet50 env) cfg) ck)
          else Inr (build_model (resnet50 env) cfg)) = Inr m1"
    and "k < nat (max_num_epochs (cfg_train_params cfg))"
    and "for_loop (train_epoch env cfg gpu
            (train_loader env (cfg_train_data_loader cfg) (world_size args) gpu))
           \<lparr>tr_it = [], model = m1,
            optimizer = optim_Adam env (build_model (resnet50 env) cfg) (1 / 1000),
            losses_train = [], saved = []\<rparr> [0..<k] = Inr s"
    and "train_epoch env cfg gpu
            (train_loader env (cfg_train_data_loader cfg) (world_size args) gpu) s k = Inl e"
  shows "train env cfg gpu args = Inl e"
  unfolding train_def Let_def assms(1) assms(2) upt_split[OF assms(3)]
  using for_loop_raise[OF assms(4,5)] by simp

text \<open>
  Claim C4. When fetching the next batch raises \<^verbatim>\<open>StopIteration\<close>, the batch is taken
  from a fresh iterator over the same data loader; any other exception of the fetch
  leaves the iteration. An epoch that returns has run exactly \<^verbatim>\<open>len(train_dataloader)\<close>
  iterations, and an epoch does return when the loader yields at least one batch and
  neither the forward pass, the update nor the checkpoint test raises. An exception of
  the fetch, of the forward pass or of the update is the result of the iteration, then of
  the epoch, then of \<^verbatim>\<open>train\<close>: nothing else is caught.
\<close>

theorem stop_iteration_restart:
  "(next_item it = Inl StopIteration \<longrightarrow> fetch dl it = next_item (iter dl))
   \<and> (\<forall>e. next_item it = Inl e \<and> e \<noteq> StopIteration \<longrightarrow> fetch dl it = Inl e)
   \<and> (\<forall>r. next_item it = Inr r \<longrightarrow> fetch dl it = Inr r)
   \<and> (\<forall>st'. train_epoch env cfg gpu dl st epoch = Inr st' \<longrightarrow>
          length (losses_train st') = dl_len dl)
   \<and> ((\<exists>bs. dl_items dl = map Inr bs \<and> bs \<noteq> []
          \<and> (\<forall>b\<in>set bs. \<forall>m. \<exists>r. forward (ops env) b (run_model env True m) gpu (MSELoss_none (ops env)) = Inr r))
       \<and> (\<forall>a r s m b. \<exists>res. optimizer_step env a r s m b = Inr res)
       \<and> checkpoint_every_n_steps (cfg_train_params cfg) \<noteq> 0
       \<longrightarrow> (\<exists>st'. train_epoch env cfg gpu dl st epoch = Inr st'))
   \<and> (\<forall>s i e. fetch dl (tr_it s) = Inl e \<longrightarrow>
          train_iteration env cfg gpu dl epoch s i = Inl e)
   \<and> (\<forall>s i b it' e. fetch dl (tr_it s) = Inr (b, it')
          \<and> forward (ops env) b (run_model env True (model s)) gpu (MSELoss_none (ops env)) = Inl e
         \<longrightarrow> train_iteration env cfg gpu dl epoch s i = Inl e)
   \<and> (\<forall>s i b it' r e. fetch dl (tr_it s) = Inr (b, it')
          \<and> forward (ops env) b (run_model env True (model s)) gpu (MSELoss_none (ops env)) = Inr r
          \<and> optimizer_step env (algo (optimizer s)) (lr (optimizer s))
               (opt_state (optimizer s)) (model s) b = Inl e
         \<longrightarrow> train_iteration env cfg gpu dl epoch s i = Inl e)
   \<and> (\<forall>s i e. i < dl_len dl
          \<and> for_loop (train_iteration env cfg gpu dl epoch)
               (st\<lparr>tr_it := iter dl, losses_train := []\<rparr>) [0..<i] = Inr s
          \<and> train_iteration env cfg gpu dl epoch s i = Inl e
         \<longrightarrow> train_epoch env cfg gpu dl st epoch = Inl e)
   \<and> (\<forall>m1 s k e. init_process_group env (world_size args) gpu = None
          \<and> (if model_num (cfg_train_params cfg) \<noteq> 0
              then (case torch_load env (Resnet (model_num (cfg_train_params cfg))) of
                      Inl e \<Rightarrow> Inl e
                    | Inr ck \<Rightarrow> load_state_dict env (build_model (resnet50 env) cfg) ck)
              else Inr (build_model (resnet50 env) cfg)) = Inr m1
          \<and> k < nat (max_num_epochs (cfg_train_params cfg))
          \<and> for_loop (train_epoch env cfg gpu
                 (train_loader env (cfg_train_data_loader cfg) (world_size args) gpu))
               \<lparr>tr_it = [], model = m1,
                optimizer = optim_Adam env (build_model (resnet50 env) cfg) (1 / 1000),
                losses_train = [], saved = []\<rparr> [0..<k] = Inr s
          \<and> train_epoch env cfg gpu
               (train_loader env (cfg_train_data_loader cfg) (world_size args) gpu) s k = Inl e
         \<longrightarrow> train env cfg gpu args = Inl e)"
proof -
  have 1: "\<forall>st'. train_epoch env cfg gpu dl st epoch = Inr st' \<longrightarrow>
          length (losses_train st') = dl_len dl"
    using train_epoch_length by blast
  have 2: "(\<exists>bs. dl_items dl = map Inr bs \<and> bs \<noteq> []
          \<and> (\<forall>b\<in>set bs. \<forall>m. \<exists>r. forward (ops env) b (run_model env True m) gpu (MSELoss_none (ops env)) = Inr r))
       \<and> (\<forall>a r s m b. \<exists>res. optimizer_step env a r s m b = Inr res)
       \<and> checkpoint_every_n_steps (cfg_train_params cfg) \<noteq> 0
       \<longrightarrow> (\<exists>st'. train_epoch env cfg gpu dl st epoch = Inr st')"
  proof
    assume h: "(\<exists>bs. dl_items dl = map Inr bs \<and> bs \<noteq> []
          \<and> (\<forall>b\<in>set bs. \<forall>m. \<exists>r. forward (ops env) b (run_model env True m) gpu (MSELoss_none (ops env)) = Inr r))
       \<and> (\<forall>a r s m b. \<exists>res. optimizer_step env a r s m b = Inr res)
       \<and> checkpoint_every_n_steps (cfg_train_params cfg) \<noteq> 0"
    then obtain bs where bs: "dl_items dl = map Inr bs" "bs \<noteq> []"
      "\<And>b m. b \<in> set bs \<Longrightarrow> \<exists>r. forward (ops env) b (run_model env True m) gpu (MSELoss_none (ops env)) = Inr r"
      by blast
    from h have os: "\<And>a r s m b. \<exists>res. optimizer_step env a r s m b = Inr res"
      and ck: "checkpoint_every_n_steps (cfg_train_params cfg) \<noteq> 0"
      by blast+
    show "\<exists>st'. train_epoch env cfg gpu dl st epoch = Inr st'"
      by (rule train_epoch_returns[OF bs(1) bs(2) bs(3) os ck])
  qed
  have 3: "\<forall>s i e. i < dl_len dl
          \<and> for_loop (train_iteration env cfg gpu dl epoch)
               (st\<lparr>tr_it := iter dl, losses_train := []\<rparr>) [0..<i] = Inr s
          \<and> train_iteration env cfg gpu dl epoch s i = Inl e
         \<longrightarrow> train_epoch env cfg gpu dl st epoch = Inl e"
    using train_epoch_raises by blast
  have 4: "\<forall>m1 s k e. init_process_group env (world_size args) gpu = None
          \<and> (if model_num (cfg_train_params cfg) \<noteq> 0
              then (case torch_load env (Resnet (model_num (cfg_train_params cfg))) of
                      Inl e \<Rightarrow> Inl e
                    | Inr ck \<Rightarrow> load_state_dict env (build_model (resnet50 env) cfg) ck)
              else Inr (build_model (resnet50 env) cfg)) = Inr m1
          \<and> k < nat (max_num_epochs (cfg_train_params cfg))
          \<and> for_loop (train_epoch env cfg gpu
                 (train_loader env (cfg_train_data_loader cfg) (world_size args) gpu))
               \<lparr>tr_it = [], model = m1,
                optimizer = optim_Adam env (build_model (resnet50 env) cfg) (1 / 1000),
                losses_train = [], saved = []\<rparr> [0..<k] = Inr s
          \<and> train_epoch env cfg gpu
               (train_loader env (cfg_train_data_loader cfg) (world_size args) gpu) s k = Inl e
         \<longrightarrow> train env cfg gpu args = Inl e"
    using train_raises by blast
  show ?thesis
    apply (intro conjI)
    subgoal using fetch_cases[of it dl] by blast
    subgoal using fetch_cases[of it dl] by blast
    subgoal using fetch_cases[of it dl] by blast
    subgoal by (rule 1)
    subgoal by (rule 2)
    subgoal using train_iteration_raises[of dl _ env cfg gpu epoch] by blast
    subgoal using train_iteration_raises[of dl _ env cfg gpu epoch] by blast
    subgoal using train_iteration_raises[of dl _ env cfg gpu epoch] by blast
    subgoal by (rule 3)
    subgoal by (rule 4)
    done
qed

theorem stop_iteration_restart_witness:
  "next_item ([] :: (error + batch) list) = Inl StopIteration
   \<and> fetch example_loader [] = Inr (example_batch, [Inr example_batch])
   \<and> next_item [Inl (OtherError ''io'')] = Inl (OtherError ''io'')
   \<and> OtherError ''io'' \<noteq> StopIteration
   \<and> fetch example_loader [Inl (OtherError ''io'')] = Inl (OtherError ''io'')
   \<and> train_epoch example_env example_cfg 0 example_loader example_start 0 = Inr example_final
   \<and> length (dl_items example_loader) = 2
   \<and> length (losses_train example_final) = 3
   \<and> dl_len example_loader = 3
   \<and> train (example_env\<lparr>run_model := \<lambda>t m x. Inl (OtherError ''out of memory'')\<rparr>)
        example_cfg 0 example_args = Inl (OtherError ''out of memory'')"
proof -
  let ?oom = "OtherError ''out of memory''"
  let ?env = "example_env\<lparr>run_model := \<lambda>t m x. Inl ?oom\<rparr>"
  let ?m0 = "build_model (resnet50 ?env) example_cfg"
  let ?s0 = "\<lparr>tr_it = [], model = ?m0, optimizer = optim_Adam ?env ?m0 (1 / 1000),
             losses_train = [], saved = []\<rparr> :: (nat, nat) train_state"
  let ?s1 = "?s0\<lparr>tr_it := iter example_loader, losses_train := []\<rparr>"
  note T1 = stop_iteration_restart[of "[]" example_loader example_env example_cfg 0
      example_start 0 example_args]
  note T2 = stop_iteration_restart[of "[Inl (OtherError ''io'')]" example_loader example_env
      example_cfg 0 example_start 0 example_args]
  note T3 = stop_iteration_restart[of "[]" example_loader ?env example_cfg 0 ?s0 0 example_args]
  have n0: "next_item ([] :: (error + batch) list) = Inl StopIteration"
    by (simp add: next_item_def)
  have n1: "next_item [Inl (OtherError ''io'')] = Inl (OtherError ''io'')"
    "OtherError ''io'' \<noteq> StopIteration"
    by (simp_all add: next_item_def)
  have f0: "fetch example_loader [] = next_item (iter example_loader)"
    by (rule T1[THEN conjunct1, rule_format]) (rule n0)
  have f1: "fetch example_loader [Inl (OtherError ''io'')] = Inl (OtherError ''io'')"
    by (rule T2[THEN conjunct2, THEN conjunct1, rule_format]) (rule conjI[OF n1])
  have l: "length (losses_train example_final) = dl_len example_loader"
    by (rule T1[THEN conjunct2, THEN conjunct2, THEN conjunct2, THEN conjunct1, rule_format]) (rule example_epoch)
  have fe: "fetch example_loader (tr_it ?s1) = Inr (example_batch, [Inr example_batch])"
    by (simp add: fetch_def next_item_def iter_def example_loader_def)
  have fw: "forward (ops ?env) example_batch (run_model ?env True (model ?s1)) 0
      (MSELoss_none (ops ?env)) = Inl ?oom"
    by (simp add: forward_def cuda_def)
  have it: "train_iteration ?env example_cfg 0 example_loader 0 ?s1 0 = Inl ?oom"
    by (rule T3[THEN conjunct2, THEN conjunct2, THEN conjunct2, THEN conjunct2, THEN conjunct2, THEN conjunct2, THEN conjunct1, rule_format]) (rule conjI[OF fe fw])
  have lp: "for_loop (train_iteration ?env example_cfg 0 example_loader 0) ?s1 [0..<0] = Inr ?s1"
    by simp
  have d: "0 < dl_len example_loader"
    by (simp add: example_loader_def)
  have ep: "train_epoch ?env example_cfg 0 example_loader ?s0 0 = Inl ?oom"
    by (rule T3[THEN conjunct2, THEN conjunct2, THEN conjunct2, THEN conjunct2, THEN conjunct2, THEN conjunct2, THEN conjunct2, THEN conjunct2, THEN conjunct1, rule_format, OF conjI[OF d conjI[OF lp it]]])
  have tl: "train_loader ?env (cfg_train_data_loader example_cfg) (world_size example_args) 0
      = example_loader"
    by (simp add: example_env_def)
  have h: "init_process_group ?env (world_size example_args) 0 = None"
    "(if model_num (cfg_train_params example_cfg) \<noteq> 0
      then (case torch_load ?env (Resnet (model_num (cfg_train_params example_cfg))) of
              Inl e \<Rightarrow> Inl e
            | Inr ck \<Rightarrow> load_state_dict ?env ?m0 ck)
      else Inr ?m0) = Inr ?m0"
    "0 < nat (max_num_epochs (cfg_train_params example_cfg))"
    "for_loop (train_epoch ?env example_cfg 0
        (train_loader ?env (cfg_train_data_loader example_cfg) (world_size example_args) 0))
        ?s0 [0..<0] = Inr ?s0"
    by (simp_all add: example_env_def example_cfg_def)
  have tr: "train ?env example_cfg 0 example_args = Inl ?oom"
    by (rule T3[THEN conjunct2, THEN conjunct2, THEN conjunct2, THEN conjunct2, THEN conjunct2, THEN conjunct2, THEN conjunct2, THEN conjunct2, THEN conjunct2, rule_format, OF conjI[OF h(1) conjI[OF h(2) conjI[OF h(3) conjI[OF h(4) ep[folded tl]]]]]])
  show ?thesis
    using n0 n1 f0 f1 l example_epoch tr
    by (simp add: iter_def next_item_def example_loader_def)
qed


section \<open>The evaluation loop\<close>

lemma for_each_batch_Inr: "for_each_batch body st (map Inr bs) = for_loop body st bs"
  by (induction bs arbitrary: st) (auto split: sum.splits)

lemma eval_iteration_ok:
  assumes "well_formed_batch F b"
    and "run_model env False m (image b) = Inr y"
    and "length (data y) = length (timestamp b) * F * 2"
  shows "eval_iteration env gpu m st b =
     Inr (st\<lparr>future_coords_offsets_pd := future_coords_offsets_pd st @
               [\<lparr>shape = [length (timestamp b), F, 2], data = data y\<rparr>],
             timestamps := timestamps st @ [timestamp b],
             agent_ids := agent_ids st @ [track_id b]\<rparr>)"
proof -
  have st: "shape (target_positions b) = [length (timestamp b), F] @ [2]"
    and sa: "shape (target_availabilities b) = [length (timestamp b), F]"
    and w: "wf_tensor (target_positions b)" "wf_tensor (target_availabilities b)"
    using assms(1) by (simp_all add: well_formed_batch_def)
  have ly: "length (data y) = prod_list [length (timestamp b), F] * 2"
    using assms(3) by simp
  show ?thesis
    unfolding eval_iteration_def
      forward_eq[of "run_model env False m" b y "[length (timestamp b), F]" 2 "ops env" gpu,
        OF assms(2) st sa w ly]
    by simp
qed

lemma batch_ok_output:
  assumes "batch_ok env m F b"
  shows "well_formed_batch F b"
    and "\<exists>y. run_model env False m (image b) = Inr y \<and> data y = model_output env m b"
    and "length (model_output env m b) = length (timestamp b) * F * 2"
  using assms
  by (auto simp: batch_ok_def model_output_def split: sum.splits)

lemma eval_loop_ok:
  assumes "list_all (batch_ok env m F) bs"
  shows "for_loop (eval_iteration env gpu m) st bs =
     Inr (st\<lparr>future_coords_offsets_pd := future_coords_offsets_pd st @
               map (\<lambda>b. \<lparr>shape = [length (timestamp b), F, 2],
                          data = model_output env m b\<rparr>) bs,
             timestamps := timestamps st @ map timestamp bs,
             agent_ids := agent_ids st @ map track_id bs\<rparr>)"
  using assms
proof (induction bs arbitrary: st)
  case Nil
  then show ?case by simp
next
  case (Cons b bs)
  from Cons.prems have ok: "batch_ok env m F b" and rest: "list_all (batch_ok env m F) bs"
    by simp_all
  from batch_ok_output(2)[OF ok] obtain y where
    y: "run_model env False m (image b) = Inr y" "data y = model_output env m b"
    by blast
  have ly: "length (data y) = length (timestamp b) * F * 2"
    using batch_ok_output(3)[OF ok] y(2) by simp
  show ?case
    by (simp add: eval_iteration_ok[OF batch_ok_output(1)[OF ok] y(1) ly] Cons.IH[OF rest] y(2))
qed

lemma np_concatenate_tensors_ok:
  assumes "ts \<noteq> []" and "list_all (\<lambda>t. \<exists>n. shape t = n # dims) ts"
  shows "np_concatenate_tensors ts =
     Inr \<lparr>shape = sum_list (map (\<lambda>u. hd (shape u)) ts) # dims, data = concat (map data ts)\<rparr>"
proof -
  from assms(1) obtain t rest where ts: "ts = t # rest"
    by (cases ts) auto
  with assms(2) obtain n where n: "shape t = n # dims"
    by auto
  have "list_all (\<lambda>u. shape u \<noteq> [] \<and> tl (shape u) = dims) rest"
    using assms(2) ts by (auto simp: list_all_iff)
  then show ?thesis
    unfolding np_concatenate_tensors_def ts using n by simp
qed

lemma upt_shift: "[k..<k + l] = map (\<lambda>i. i + k) [0..<l]"
  by (metis add.commute map_add_upt)

lemma drop_shift:
  assumes "length xs = k * n"
  shows "drop ((i + k) * n) (xs @ ys) = drop (i * n) ys"
proof -
  have "(i + k) * n = i * n + length xs"
    using assms by (simp add: add_mult_distrib)
  then have "drop ((i + k) * n) (xs @ ys) = drop (i * n) (drop (length xs) (xs @ ys))"
    by (simp only: drop_drop)
  then show ?thesis
    by simp
qed

lemma chunks_append:
  assumes "length xs = k * n"
  shows "chunks (k + l) n (xs @ ys) = chunks k n xs @ chunks l n ys"
proof -
  let ?f = "\<lambda>i. take n (drop (i * n) (xs @ ys))"
  have 1: "map ?f [0..<k] = map (\<lambda>i. take n (drop (i * n) xs)) [0..<k]"
  proof (rule map_cong[OF refl])
    fix i assume "i \<in> set [0..<k]"
    then have "i < k" by simp
    then have "i * n + n \<le> k * n"
      by (metis Suc_leI mult_Suc mult_le_mono1 add.commute)
    then show "take n (drop (i * n) (xs @ ys)) = take n (drop (i * n) xs)"
      using assms by simp
  qed
  have "map ?f [k..<k + l] = map (\<lambda>i. ?f (i + k)) [0..<l]"
    unfolding upt_shift map_map comp_def ..
  also have "\<dots> = map (\<lambda>i. take n (drop (i * n) ys)) [0..<l]"
    unfolding drop_shift[OF assms] ..
  finally have 2: "map ?f [k..<k + l] = map (\<lambda>i. take n (drop (i * n) ys)) [0..<l]" .
  have 3: "[0..<k + l] = [0..<k] @ [k..<k + l]"
    by (rule upt_add_eq_append) simp
  show ?thesis
    unfolding chunks_def 3 map_append 1 2 ..
qed

lemma zip_chunks_concat:
  assumes "list_all (\<lambda>b. length (ids b) = length (ts b) \<and> length (out b) = length (ts b) * n) bs"
  shows "zip (concat (map ts bs))
           (zip (concat (map ids bs))
              (chunks (sum_list (map (\<lambda>b. length (ts b)) bs)) n (concat (map out bs))))
       = concat (map (\<lambda>b. zip (ts b) (zip (ids b) (chunks (length (ts b)) n (out b)))) bs)"
  using assms
proof (induction bs)
  case Nil
  then show ?case by (simp add: chunks_def)
next
  case (Cons b bs)
  from Cons.prems have b: "length (ids b) = length (ts b)" "length (out b) = length (ts b) * n"
    and rest: "list_all (\<lambda>b. length (ids b) = length (ts b)
        \<and> length (out b) = length (ts b) * n) bs"
    by simp_all
  let ?N = "sum_list (map (\<lambda>b. length (ts b)) bs)"
  have c: "chunks (length (ts b) + ?N) n (out b @ concat (map out bs))
      = chunks (length (ts b)) n (out b) @ chunks ?N n (concat (map out bs))"
    by (rule chunks_append[OF b(2)])
  have z: "zip (ids b @ concat (map ids bs))
        (chunks (length (ts b)) n (out b) @ chunks ?N n (concat (map out bs)))
      = zip (ids b) (chunks (length (ts b)) n (out b))
        @ zip (concat (map ids bs)) (chunks ?N n (concat (map out bs)))"
    by (rule zip_append) (simp add: b(1) length_chunks)
  have l: "length (ts b) = length (zip (ids b) (chunks (length (ts b)) n (out b)))"
    by (simp add: b(1) length_chunks)
  show ?case
    by (simp add: c z zip_append[OF l] Cons.IH[OF rest])
qed

lemma zip_rows:
  assumes "length ts = N" and "length ids = N" and "length xs = N * n"
  shows "length (zip ts (zip ids (chunks N n xs))) = N"
    and "map fst (zip ts (zip ids (chunks N n xs))) = ts"
    and "map (\<lambda>r. fst (snd r)) (zip ts (zip ids (chunks N n xs))) = ids"
    and "map (\<lambda>r. snd (snd r)) (zip ts (zip ids (chunks N n xs))) = chunks N n xs"
    and "list_all (\<lambda>r. length (snd (snd r)) = n) (zip ts (zip ids (chunks N n xs)))"
proof -
  let ?ch = "chunks N n xs"
  let ?rows = "zip ts (zip ids ?ch)"
  have lz: "length (zip ids ?ch) = N"
    using assms(2) by (simp add: length_chunks)
  show "length ?rows = N"
    using assms(1) lz by simp
  show "map fst ?rows = ts"
    using assms(1) lz by simp
  have s: "map snd ?rows = zip ids ?ch"
    using assms(1) lz by simp
  have "map fst (map snd ?rows) = ids"
    unfolding s using assms(2) by (simp add: length_chunks)
  then show "map (\<lambda>r. fst (snd r)) ?rows = ids"
    by (simp add: comp_def)
  have "map snd (map snd ?rows) = ?ch"
    unfolding s using assms(2) by (simp add: length_chunks)
  then show "map (\<lambda>r. snd (snd r)) ?rows = ?ch"
    by (simp add: comp_def)
  show "list_all (\<lambda>r. length (snd (snd r)) = n) ?rows"
    unfolding list_all_iff
  proof
    fix r assume "r \<in> set ?rows"
    then have "snd (snd r) \<in> set ?ch"
      by (metis in_set_zipE prod.collapse)
    from length_chunk[OF assms(3) this] show "length (snd (snd r)) = n" .
  qed
qed

text \<open>
  Claim C5. When the process group, the checkpoint and its model state load, the test
  loader yields at least one batch, and every batch is well formed with a model output of
  \<open>B * F * 2\<close> numbers, \<^verbatim>\<open>test\<close> writes \<^verbatim>\<open>./pred.csv\<close> with exactly the rows of the
  batches in the order of the iteration: for each sample of each batch its timestamp, its
  track id and the \<open>F * 2\<close> numbers that the loaded model returned for it in evaluation
  mode. The concatenated timestamps, track ids and outputs that \<^verbatim>\<open>write_pred_csv\<close>
  receives all have the length \<open>N\<close>, the total number of samples (the coordinates have
  shape \<open>(N, F, 2)\<close>), there are \<open>N\<close> rows, and row by row they hold these timestamps,
  track ids and coordinates.
\<close>

theorem test_rows:
  assumes "init_process_group env (world_size args) gpu = None"
    and "torch_load env (Resnet (cfg_test_model_num cfg)) = Inr ck"
    and "load_state_dict env (build_model (resnet50 env) cfg) ck = Inr m1"
    and "dl_items (test_loader env (cfg_test_data_loader cfg) (world_size args) gpu) = map Inr bs"
    and "bs \<noteq> []"
    and "list_all (batch_ok env m1 F) bs"
  shows "test env cfg gpu args
           = Inr \<lparr>csv_path = ''./pred.csv'',
                  csv_rows = concat (map (batch_rows env m1 F) bs)\<rparr>
     \<and> write_pred_csv ''./pred.csv'' (concat (map timestamp bs)) (concat (map track_id bs))
          \<lparr>shape = [sum_list (map (\<lambda>b. length (timestamp b)) bs), F, 2],
           data = concat (map (model_output env m1) bs)\<rparr>
           = Inr \<lparr>csv_path = ''./pred.csv'',
                  csv_rows = concat (map (batch_rows env m1 F) bs)\<rparr>
     \<and> wf_tensor \<lparr>shape = [sum_list (map (\<lambda>b. length (timestamp b)) bs), F, 2],
           data = concat (map (model_output env m1) bs)\<rparr>
     \<and> length (concat (map timestamp bs)) = sum_list (map (\<lambda>b. length (timestamp b)) bs)
     \<and> length (concat (map track_id bs)) = sum_list (map (\<lambda>b. length (timestamp b)) bs)
     \<and> length (concat (map (batch_rows env m1 F) bs))
          = sum_list (map (\<lambda>b. length (timestamp b)) bs)
     \<and> map fst (concat (map (batch_rows env m1 F) bs)) = concat (map timestamp bs)
     \<and> map (\<lambda>r. fst (snd r)) (concat (map (batch_rows env m1 F) bs))
          = concat (map track_id bs)
     \<and> map (\<lambda>r. snd (snd r)) (concat (map (batch_rows env m1 F) bs))
          = chunks (sum_list (map (\<lambda>b. length (timestamp b)) bs)) (F * 2)
              (concat (map (model_output env m1) bs))
     \<and> list_all (\<lambda>r. length (snd (snd r)) = F * 2) (concat (map (batch_rows env m1 F) bs))"
proof -
  let ?N = "sum_list (map (\<lambda>b. length (timestamp b)) bs)"
  let ?s0 = "\<lparr>future_coords_offsets_pd = [], timestamps = [], agent_ids = []\<rparr>"
  let ?outs = "map (\<lambda>b. \<lparr>shape = [length (timestamp b), F, 2],
      data = model_output env m1 b\<rparr>) bs"
  let ?st = "\<lparr>future_coords_offsets_pd = ?outs, timestamps = map timestamp bs,
      agent_ids = map track_id bs\<rparr>"
  let ?ts = "concat (map timestamp bs)"
  let ?ids = "concat (map track_id bs)"
  let ?coords = "\<lparr>shape = [?N, F, 2], data = concat (map (model_output env m1) bs)\<rparr>"
  let ?rows = "concat (map (batch_rows env m1 F) bs)"
  have l: "for_loop (eval_iteration env gpu m1) ?s0 bs = Inr ?st"
    by (simp add: eval_loop_ok[OF assms(6)])
  have ne: "?outs \<noteq> []"
    using assms(5) by simp
  have la: "list_all (\<lambda>t. \<exists>n. shape t = n # [F, 2]) ?outs"
    by (simp add: list_all_iff)
  have c: "np_concatenate_tensors ?outs = Inr ?coords"
    unfolding np_concatenate_tensors_ok[OF ne la] by (simp add: comp_def)
  have each: "list_all (\<lambda>b. length (track_id b) = length (timestamp b)
      \<and> length (model_output env m1 b) = length (timestamp b) * (F * 2)) bs"
    unfolding list_all_iff
  proof
    fix b assume "b \<in> set bs"
    with assms(6) have ok: "batch_ok env m1 F b"
      by (simp add: list_all_iff)
    from batch_ok_output(1)[OF ok] batch_ok_output(3)[OF ok]
    show "length (track_id b) = length (timestamp b)
      \<and> length (model_output env m1 b) = length (timestamp b) * (F * 2)"
      by (simp add: well_formed_batch_def mult.assoc)
  qed
  have "length (concat (map (model_output env m1) bs))
      = sum_list (map (\<lambda>b. length (model_output env m1 b)) bs)"
    by (simp add: length_concat comp_def)
  also have "map (\<lambda>b. length (model_output env m1 b)) bs
      = map (\<lambda>b. length (timestamp b) * (F * 2)) bs"
    using each by (simp add: list_all_iff)
  also have "sum_list (map (\<lambda>b. length (timestamp b) * (F * 2)) bs) = ?N * (F * 2)"
    by (rule sum_list_mult_const)
  finally have lc: "length (concat (map (model_output env m1) bs)) = ?N * (F * 2)" .
  have lt: "length ?ts = ?N"
    by (simp add: length_concat comp_def)
  have "map (\<lambda>b. length (track_id b)) bs = map (\<lambda>b. length (timestamp b)) bs"
    using each by (simp add: list_all_iff)
  then have "sum_list (map (\<lambda>b. length (track_id b)) bs) = ?N"
    by (simp only:)
  then have li: "length ?ids = ?N"
    by (simp add: length_concat comp_def)
  have br: "batch_rows env m1 F = (\<lambda>b. zip (timestamp b) (zip (track_id b)
      (chunks (length (timestamp b)) (F * 2) (model_output env m1 b))))"
    by (rule ext) (simp add: batch_rows_def)
  have rows: "zip ?ts (zip ?ids (chunks ?N (F * 2) (concat (map (model_output env m1) bs))))
      = ?rows"
    unfolding br by (rule zip_chunks_concat[OF each])
  have w: "write_pred_csv ''./pred.csv'' ?ts ?ids ?coords
      = Inr \<lparr>csv_path = ''./pred.csv'', csv_rows = ?rows\<rparr>"
    using lt li by (simp add: write_pred_csv_def rows)
  have nt: "np_concatenate (timestamps ?st) = Inr ?ts"
    "np_concatenate (agent_ids ?st) = Inr ?ids"
    using assms(5) by (simp_all add: np_concatenate_def)
  have t: "test env cfg gpu args = Inr \<lparr>csv_path = ''./pred.csv'', csv_rows = ?rows\<rparr>"
    unfolding test_def Let_def assms(1) assms(2) iter_def assms(4) for_each_batch_Inr
    using nt c by (simp add: assms(3) l w)
  have wf: "wf_tensor ?coords"
    using lc by (simp add: wf_tensor_def)
  note z = zip_rows[OF lt li lc, unfolded rows]
  show ?thesis
    apply (intro conjI)
    subgoal by (rule t)
    subgoal by (rule w)
    subgoal by (rule wf)
    subgoal by (rule lt)
    subgoal by (rule li)
    subgoal by (rule z(1))
    subgoal by (rule z(2))
    subgoal by (rule z(3))
    subgoal by (rule z(4))
    subgoal by (rule z(5))
    done
qed

theorem test_rows_witness:
  "init_process_group example_env (world_size example_args) 0 = None
   \<and> torch_load example_env (Resnet (cfg_test_model_num example_cfg))
      = Inr [(''model'', ModelState
               ((build_model (\<lambda>pretrained. example_resnet) example_cfg)\<lparr>other_layers := 6\<rparr>))]
   \<and> load_state_dict example_env (build_model (resnet50 example_env) example_cfg)
        [(''model'', ModelState
            ((build_model (\<lambda>pretrained. example_resnet) example_cfg)\<lparr>other_layers := 6\<rparr>))]
      = Inr ((build_model (\<lambda>pretrained. example_resnet) example_cfg)\<lparr>other_layers := 6\<rparr>)
   \<and> dl_items (test_loader example_env (cfg_test_data_loader example_cfg)
         (world_size example_args) 0) = map Inr [example_batch, example_batch2]
   \<and> list_all (batch_ok example_env
         ((build_model (\<lambda>pretrained. example_resnet) example_cfg)\<lparr>other_layers := 6\<rparr>) 2)
         [example_batch, example_batch2]
   \<and> test example_env example_cfg 0 example_args
      = Inr \<lparr>csv_path = ''./pred.csv'',
             csv_rows = [(100, 7, [Fin 3, Fin 3, Fin 3, Fin 3]),
                         (200, 8, [Fin 5, Fin 5, Fin 5, Fin 5]),
                         (300, 9, [Fin 7, Fin 7, Fin 7, Fin 7])]\<rparr>"
proof -
  let ?m = "(build_model (\<lambda>pretrained. example_resnet) example_cfg)\<lparr>other_layers := 6\<rparr>"
  let ?ck = "[(''model'', ModelState ?m)] :: (nat, nat) checkpoint"
  have h1: "init_process_group example_env (world_size example_args) 0 = None"
    by (simp add: example_env_def)
  have h2: "torch_load example_env (Resnet (cfg_test_model_num example_cfg)) = Inr ?ck"
    by (simp add: example_env_def)
  have r: "resnet50 example_env = (\<lambda>pretrained. example_resnet)"
    by (simp add: example_env_def)
  have pf: "params_fit example_env a b" for a b
    by (simp add: example_env_def)
  have h3: "load_state_dict example_env (build_model (resnet50 example_env) example_cfg) ?ck
      = Inr ?m"
    unfolding r by (simp add: load_state_dict_def pf)
  have h4: "dl_items (test_loader example_env (cfg_test_data_loader example_cfg)
         (world_size example_args) 0) = map Inr [example_batch, example_batch2]"
    by (simp add: example_env_def)
  have h5: "[example_batch, example_batch2] \<noteq> []"
    by simp
  have of4: "out_features (fc ?m) = 4"
    by (simp add: build_model_def example_cfg_def Let_def)
  have n1: "run_model example_env False ?m (image example_batch)
      = Inr \<lparr>shape = [1, 4], data = [Fin 3, Fin 3, Fin 3, Fin 3]\<rparr>"
    using example_net_batch[OF of4] by (simp add: example_env_def)
  have n2: "run_model example_env False ?m (image example_batch2)
      = Inr \<lparr>shape = [2, 4],
             data = [Fin 5, Fin 5, Fin 5, Fin 5, Fin 7, Fin 7, Fin 7, Fin 7]\<rparr>"
    using example_net_batch2[OF of4] by (simp add: example_env_def)
  have ok1: "batch_ok example_env ?m 2 example_batch"
    unfolding batch_ok_def well_formed_batch_def n1
    by (simp add: example_batch_def wf_tensor_def)
  have ok2: "batch_ok example_env ?m 2 example_batch2"
    unfolding batch_ok_def well_formed_batch_def n2
    by (simp add: example_batch2_def wf_tensor_def)
  have h6: "list_all (batch_ok example_env ?m 2) [example_batch, example_batch2]"
    using ok1 ok2 by simp
  have u: "[0..<2] = [0, 1]"
    by (simp add: upt_rec)
  have r1: "batch_rows example_env ?m 2 example_batch
      = [(100, 7, [Fin 3, Fin 3, Fin 3, Fin 3])]"
    unfolding batch_rows_def model_output_def n1
    by (simp add: example_batch_def chunks_def)
  have r2: "batch_rows example_env ?m 2 example_batch2
      = [(200, 8, [Fin 5, Fin 5, Fin 5, Fin 5]), (300, 9, [Fin 7, Fin 7, Fin 7, Fin 7])]"
    unfolding batch_rows_def model_output_def n2
    by (simp add: example_batch2_def chunks_def u)
  have "test example_env example_cfg 0 example_args
      = Inr \<lparr>csv_path = ''./pred.csv'',
             csv_rows = concat (map (batch_rows example_env ?m 2)
                                  [example_batch, example_batch2])\<rparr>"
    by (rule test_rows[OF h1 h2 h3 h4 h5 h6, THEN conjunct1])
  then have t: "test example_env example_cfg 0 example_args
      = Inr \<lparr>csv_path = ''./pred.csv'',
             csv_rows = [(100, 7, [Fin 3, Fin 3, Fin 3, Fin 3]),
                         (200, 8, [Fin 5, Fin 5, Fin 5, Fin 5]),
                         (300, 9, [Fin 7, Fin 7, Fin 7, Fin 7])]\<rparr>"
    by (simp add: r1 r2)
  show ?thesis
    apply (intro conjI)
    subgoal by (rule h1)
    subgoal by (rule h2)
    subgoal by (rule h3)
    subgoal by (rule h4)
    subgoal by (rule h6)
    subgoal by (rule t)
    done
qed


end
